theory Spec2Isabelle
  imports Main "HOL-Library.Sublist"
begin

section \<open>Python strings\<close>

text \<open>
  A Python \<^verbatim>\<open>str\<close> is a sequence of Unicode code points; \<^verbatim>\<open>len\<close> and slicing count
  code points. A string is therefore a list of code points, and an ASCII literal of the
  source is written \<open>lit ''...''\<close>.
\<close>

type_synonym codepoint = nat
type_synonym str = "codepoint list"

definition lit :: "string \<Rightarrow> str" where
  "lit s = map of_char s"

text \<open>
  \<^verbatim>\<open>str.strip()\<close> without argument removes leading and trailing whitespace, where
  whitespace is what CPython's \<^verbatim>\<open>Py_UNICODE_ISSPACE\<close> accepts: U+0009..U+000D,
  U+001C..U+0020, U+0085, U+00A0, U+1680, U+2000..U+200A, U+2028, U+2029, U+202F, U+205F
  and U+3000.
\<close>

definition isspace :: "codepoint \<Rightarrow> bool" where
  "isspace c \<longleftrightarrow>
     (9 \<le> c \<and> c \<le> 13) \<or> (28 \<le> c \<and> c \<le> 32) \<or> c = 133 \<or> c = 160 \<or> c = 5760 \<or>
     (8192 \<le> c \<and> c \<le> 8202) \<or> c = 8232 \<or> c = 8233 \<or> c = 8239 \<or> c = 8287 \<or> c = 12288"

definition str_strip :: "str \<Rightarrow> str" where
  "str_strip s = rev (dropWhile isspace (rev (dropWhile isspace s)))"

text \<open>
  \<^verbatim>\<open>s.split(sep)\<close> for a separator of one character, the only use in the source
  (\<^verbatim>\<open>'\n'\<close> and \<^verbatim>\<open>';'\<close>): \<open>n\<close> separators give \<open>n + 1\<close> pieces, so the result is
  never the empty list (the first case of the \<open>case\<close> below is never taken).
\<close>

fun str_split :: "str \<Rightarrow> codepoint \<Rightarrow> str list" where
  "str_split [] sep = [[]]"
| "str_split (c # cs) sep =
     (case str_split cs sep of
        [] \<Rightarrow> [[c]]
      | piece # pieces \<Rightarrow> if c = sep then [] # piece # pieces else (c # piece) # pieces)"

definition str_startswith :: "str \<Rightarrow> str \<Rightarrow> bool" where
  "str_startswith s p = prefix p s"

text \<open>
  \<^verbatim>\<open>s.replace(old, new)\<close> replaces every non-overlapping occurrence of \<^verbatim>\<open>old\<close>, scanning
  from the left; for the empty \<^verbatim>\<open>old\<close> Python puts \<^verbatim>\<open>new\<close> before every character and
  at the end.
\<close>

fun str_replace :: "str \<Rightarrow> str \<Rightarrow> str \<Rightarrow> str" where
  "str_replace [] old new = (if old = [] then new else [])"
| "str_replace (c # cs) old new =
     (if old = [] then new @ concat (map (\<lambda>x. x # new) (c # cs))
      else if prefix old (c # cs)
           then new @ str_replace (drop (length old) (c # cs)) old new
           else c # str_replace cs old new)"

section \<open>The response extractor (main.py, \<^verbatim>\<open>parse_analysis_response\<close>)\<close>

text \<open>The dictionary \<^verbatim>\<open>analysis\<close> has seven fixed keys: a record.\<close>

record analysis =
  disease_name :: str
  confidence :: str
  description :: str
  symptoms :: "str list"
  treatment :: "str list"
  prevention :: "str list"
  severity :: str

definition initial_analysis :: analysis where
  "initial_analysis =
     \<lparr>disease_name = lit ''Unknown'', confidence = lit ''Medium'', description = [],
      symptoms = [], treatment = [], prevention = [], severity = lit ''Unknown''\<rparr>"

text \<open>
  The value of a tagged line: \<^verbatim>\<open>line.replace(TAG, "").strip()\<close>.
\<close>

definition tag_value :: "str \<Rightarrow> str \<Rightarrow> str" where
  "tag_value line tag = str_strip (str_replace line tag [])"

text \<open>
  The comprehension \<^verbatim>\<open>[s.strip() for s in text.split(';') if s.strip()]\<close>, which the
  source writes out for each of the three list fields (\<open>59\<close> is \<^verbatim>\<open>';'\<close>).
\<close>

definition semicolon_items :: "str \<Rightarrow> str list" where
  "semicolon_items text = map str_strip (filter (\<lambda>s. str_strip s \<noteq> []) (str_split text 59))"

text \<open>
  The body of \<^verbatim>\<open>for line in lines\<close>: strip the line, skip it when empty, otherwise the
  first tag of the \<^verbatim>\<open>if/elif\<close> chain that is a prefix decides the field assigned. (The
  variable \<^verbatim>\<open>current_section\<close> of the source is never read.)
\<close>

definition process_line :: "analysis \<Rightarrow> str \<Rightarrow> analysis" where
  "process_line a raw =
     (let line = str_strip raw in
      if line = [] then a
      else if str_startswith line (lit ''DISEASE NAME:'')
        then a\<lparr>disease_name := tag_value line (lit ''DISEASE NAME:'')\<rparr>
      else if str_startswith line (lit ''CONFIDENCE:'')
        then a\<lparr>confidence := tag_value line (lit ''CONFIDENCE:'')\<rparr>
      else if str_startswith line (lit ''DESCRIPTION:'')
        then a\<lparr>description := tag_value line (lit ''DESCRIPTION:'')\<rparr>
      else if str_startswith line (lit ''SYMPTOMS:'')
        then a\<lparr>symptoms := semicolon_items (tag_value line (lit ''SYMPTOMS:''))\<rparr>
      else if str_startswith line (lit ''TREATMENT:'')
        then a\<lparr>treatment := semicolon_items (tag_value line (lit ''TREATMENT:''))\<rparr>
      else if str_startswith line (lit ''PREVENTION:'')
        then a\<lparr>prevention := semicolon_items (tag_value line (lit ''PREVENTION:''))\<rparr>
      else if str_startswith line (lit ''SEVERITY:'')
        then a\<lparr>severity := tag_value line (lit ''SEVERITY:'')\<rparr>
      else a)"

text \<open>\<^verbatim>\<open>lines = response_text.strip().split('\n')\<close> (\<open>10\<close> is the newline).\<close>

definition response_lines :: "str \<Rightarrow> str list" where
  "response_lines response_text = str_split (str_strip response_text) 10"

text \<open>The loop over the lines, from the default record.\<close>

definition scan_lines :: "str list \<Rightarrow> analysis" where
  "scan_lines lines = foldl process_line initial_analysis lines"

text \<open>The four fallback assignments after the loop, in the order of the source.\<close>

definition fallback :: "str \<Rightarrow> str list \<Rightarrow> analysis \<Rightarrow> analysis" where
  "fallback response_text lines a0 =
     (let a1 = (if description a0 = [] \<and> length lines > 0
                then a0\<lparr>description := take 200 response_text @ lit ''...''\<rparr> else a0);
          a2 = (if symptoms a1 = []
                then a1\<lparr>symptoms := [lit ''Analysis completed - check description for details'']\<rparr>
                else a1);
          a3 = (if treatment a2 = []
                then a2\<lparr>treatment := [lit ''Consult with agricultural expert for specific treatment'']\<rparr>
                else a2);
          a4 = (if prevention a3 = []
                then a3\<lparr>prevention := [lit ''Maintain proper plant hygiene and monitoring'']\<rparr>
                else a3)
      in a4)"

definition parse_analysis_response :: "str \<Rightarrow> analysis" where
  "parse_analysis_response response_text =
     (let lines = response_lines response_text
      in fallback response_text lines (scan_lines lines))"

text \<open>
  The lines the loop assigns from for one tag: the lines of the response, stripped as the
  loop strips them, that start with the tag, in the order of the text.
\<close>

definition tagged_lines :: "str \<Rightarrow> str \<Rightarrow> str list" where
  "tagged_lines response_text tag =
     filter (\<lambda>line. str_startswith line tag) (map str_strip (response_lines response_text))"

text \<open>\<^verbatim>\<open>sub in s\<close>: the string \<open>sub\<close> occurs somewhere in \<open>s\<close>.\<close>

fun str_contains :: "str \<Rightarrow> str \<Rightarrow> bool" where
  "str_contains [] sub = (sub = [])"
| "str_contains (c # cs) sub = (if prefix sub (c # cs) then True else str_contains cs sub)"

text \<open>
  \<^verbatim>\<open>sep.join(pieces)\<close> for a separator of one character. The source does not call it; it
  states what splitting gives back: the pieces that were joined.
\<close>

fun str_join :: "codepoint \<Rightarrow> str list \<Rightarrow> str" where
  "str_join sep [] = []"
| "str_join sep [s] = s"
| "str_join sep (s # s' # ss) = s @ sep # str_join sep (s' # ss)"

section \<open>The endpoint \<^verbatim>\<open>/analyze\<close> (main.py, \<^verbatim>\<open>analyze_leaf\<close>)\<close>

text \<open>
  Exceptions are values. \<^verbatim>\<open>HTTPException\<close> carries its status code and detail; every other
  exception that the body can raise carries its message. \<^verbatim>\<open>HTTPException\<close> is a subclass
  of \<^verbatim>\<open>Exception\<close>, so the handler \<^verbatim>\<open>except Exception\<close> catches both.
\<close>

datatype exn = HTTPException nat str | OtherException str

text \<open>
  The uploaded file: its content type, which FastAPI leaves \<^verbatim>\<open>None\<close> when the part has no
  such header, and its bytes.
\<close>

record upload_file =
  content_type :: "str option"
  contents :: "nat list"

text \<open>\<^verbatim>\<open>AnalysisResponse\<close>: the seven fields of the parser and the timestamp.\<close>

record analysis_response = analysis +
  timestamp :: str

text \<open>
  The body of the \<^verbatim>\<open>try\<close> block. Reading the file, encoding it and calling the vision
  model are outside the repository: \<open>vision\<close> maps the bytes to the model's text or to the
  exception raised on the way, and \<open>now\<close> is \<^verbatim>\<open>datetime.now().isoformat()\<close>. On \<^verbatim>\<open>None\<close>
  the call \<^verbatim>\<open>file.content_type.startswith\<close> raises an \<^verbatim>\<open>AttributeError\<close>, whose message is
  written here without its quotation marks.
\<close>

definition analyze_leaf_try ::
    "(nat list \<Rightarrow> exn + str) \<Rightarrow> str \<Rightarrow> upload_file \<Rightarrow> exn + analysis_response" where
  "analyze_leaf_try vision now file =
     (case content_type file of
        None \<Rightarrow> Inl (OtherException (lit ''NoneType object has no attribute startswith''))
      | Some ct \<Rightarrow>
          if \<not> str_startswith ct (lit ''image/'')
          then Inl (HTTPException 400 (lit ''File must be an image (JPEG, PNG, etc.)''))
          else (case vision (contents file) of
                  Inl e \<Rightarrow> Inl e
                | Inr response_text \<Rightarrow>
                    Inr (analysis.extend (parse_analysis_response response_text)
                           (analysis_response.fields now))))"

text \<open>
  The handler: \<^verbatim>\<open>except Exception as e: raise HTTPException(500, f"Error analyzing image:
  {str(e)}")\<close>, where \<open>str_of\<close> is \<^verbatim>\<open>str\<close> on exceptions.
\<close>

definition analyze_leaf ::
    "(exn \<Rightarrow> str) \<Rightarrow> (nat list \<Rightarrow> exn + str) \<Rightarrow> str \<Rightarrow> upload_file \<Rightarrow> exn + analysis_response" where
  "analyze_leaf str_of vision now file =
     (case analyze_leaf_try vision now file of
        Inl e \<Rightarrow> Inl (HTTPException 500 (lit ''Error analyzing image: '' @ str_of e))
      | Inr r \<Rightarrow> Inr r)"

text \<open>
  The status of the HTTP response: FastAPI answers a raised \<^verbatim>\<open>HTTPException\<close> with its
  status code, any other exception with 500, and a returned value with 200.
\<close>

fun response_status :: "exn + analysis_response \<Rightarrow> nat" where
  "response_status (Inl (HTTPException code detail)) = code"
| "response_status (Inl (OtherException msg)) = 500"
| "response_status (Inr r) = 200"

fun response_detail :: "exn + analysis_response \<Rightarrow> str" where
  "response_detail (Inl (HTTPException code detail)) = detail"
| "response_detail (Inl (OtherException msg)) = lit ''Internal Server Error''"
| "response_detail (Inr r) = []"

text \<open>
  An item as the list fields are meant to hold it: non-empty, with no whitespace at either
  end.
\<close>

definition trimmed_item :: "str \<Rightarrow> bool" where
  "trimmed_item s \<longleftrightarrow> s \<noteq> [] \<and> \<not> isspace (hd s) \<and> \<not> isspace (last s)"

section \<open>Totality and the fallback lists\<close>

lemma fallback_symptoms:
  "symptoms (fallback t ls a) =
     (if symptoms a = [] then [lit ''Analysis completed - check description for details'']
      else symptoms a)"
  by (simp add: fallback_def Let_def)

lemma fallback_treatment:
  "treatment (fallback t ls a) =
     (if treatment a = [] then [lit ''Consult with agricultural expert for specific treatment'']
      else treatment a)"
  by (simp add: fallback_def Let_def)

lemma fallback_prevention:
  "prevention (fallback t ls a) =
     (if prevention a = [] then [lit ''Maintain proper plant hygiene and monitoring'']
      else prevention a)"
  by (simp add: fallback_def Let_def)

lemma fallback_description:
  "description (fallback t ls a) =
     (if description a = [] \<and> length ls > 0 then take 200 t @ lit ''...'' else description a)"
  by (auto simp add: fallback_def Let_def)

lemma fallback_disease_name: "disease_name (fallback t ls a) = disease_name a"
  by (simp add: fallback_def Let_def)

lemma fallback_confidence: "confidence (fallback t ls a) = confidence a"
  by (simp add: fallback_def Let_def)

lemma fallback_severity: "severity (fallback t ls a) = severity a"
  by (simp add: fallback_def Let_def)

text \<open>
  Claim C1. The extractor is a total function of its input string: it has no raising
  branch, it returns a record of the seven fields for every input, and in that record
  \<open>symptoms\<close>, \<open>treatment\<close> and \<open>prevention\<close> are non-empty lists.
\<close>

theorem parse_analysis_response_total:
  "\<exists>r. parse_analysis_response t = r \<and>
       symptoms r \<noteq> [] \<and> treatment r \<noteq> [] \<and> prevention r \<noteq> []"
  by (simp add: parse_analysis_response_def Let_def fallback_symptoms fallback_treatment
      fallback_prevention)

theorem parse_analysis_response_total_witness:
  "symptoms (parse_analysis_response (lit ''TREATMENT: prune; spray'')) \<noteq> [] \<and>
   treatment (parse_analysis_response (lit ''TREATMENT: prune; spray'')) \<noteq> [] \<and>
   prevention (parse_analysis_response (lit ''TREATMENT: prune; spray'')) \<noteq> []"
  using parse_analysis_response_total [of "lit ''TREATMENT: prune; spray''"] by simp

section \<open>The loop: the last line of a tag decides its field\<close>

lemma str_split_nonempty: "str_split s sep \<noteq> []"
  by (induction s) (auto split: list.splits)

lemma foldl_last_wins:
  assumes "\<And>a x. g (f a x) = (if P x then v x else g a)"
  shows "g (foldl f a ls) = (if filter P ls = [] then g a else v (last (filter P ls)))"
  by (induction ls rule: rev_induct) (simp_all add: assms)

lemma filter_map_strip:
  "filter (\<lambda>line. str_startswith line tag) (map str_strip ls) =
   map str_strip (filter (\<lambda>x. str_startswith (str_strip x) tag) ls)"
  by (simp add: filter_map comp_def)

lemma scan_field:
  assumes "\<And>a x. g (process_line a x) =
             (if str_startswith (str_strip x) tag then v (str_strip x) else g a)"
  shows "g (scan_lines (response_lines t)) =
           (if tagged_lines t tag = [] then g initial_analysis
            else v (last (tagged_lines t tag)))"
proof -
  let ?P = "\<lambda>x. str_startswith (str_strip x) tag"
  have "g (foldl process_line initial_analysis (response_lines t)) =
          (if filter ?P (response_lines t) = [] then g initial_analysis
           else (v \<circ> str_strip) (last (filter ?P (response_lines t))))"
    by (rule foldl_last_wins) (simp add: assms)
  then show ?thesis
    by (simp add: scan_lines_def tagged_lines_def filter_map_strip last_map)
qed

lemma process_line_disease_name:
  "disease_name (process_line a x) =
     (if str_startswith (str_strip x) (lit ''DISEASE NAME:'')
      then tag_value (str_strip x) (lit ''DISEASE NAME:'') else disease_name a)"
  by (auto simp: process_line_def Let_def str_startswith_def lit_def prefix_def)

lemma process_line_confidence:
  "confidence (process_line a x) =
     (if str_startswith (str_strip x) (lit ''CONFIDENCE:'')
      then tag_value (str_strip x) (lit ''CONFIDENCE:'') else confidence a)"
  by (auto simp: process_line_def Let_def str_startswith_def lit_def prefix_def)

lemma process_line_description:
  "description (process_line a x) =
     (if str_startswith (str_strip x) (lit ''DESCRIPTION:'')
      then tag_value (str_strip x) (lit ''DESCRIPTION:'') else description a)"
  by (auto simp: process_line_def Let_def str_startswith_def lit_def prefix_def)

lemma process_line_symptoms:
  "symptoms (process_line a x) =
     (if str_startswith (str_strip x) (lit ''SYMPTOMS:'')
      then semicolon_items (tag_value (str_strip x) (lit ''SYMPTOMS:'')) else symptoms a)"
  by (auto simp: process_line_def Let_def str_startswith_def lit_def prefix_def)

lemma process_line_treatment:
  "treatment (process_line a x) =
     (if str_startswith (str_strip x) (lit ''TREATMENT:'')
      then semicolon_items (tag_value (str_strip x) (lit ''TREATMENT:'')) else treatment a)"
  by (auto simp: process_line_def Let_def str_startswith_def lit_def prefix_def)

lemma process_line_prevention:
  "prevention (process_line a x) =
     (if str_startswith (str_strip x) (lit ''PREVENTION:'')
      then semicolon_items (tag_value (str_strip x) (lit ''PREVENTION:'')) else prevention a)"
  by (auto simp: process_line_def Let_def str_startswith_def lit_def prefix_def)

lemma process_line_severity:
  "severity (process_line a x) =
     (if str_startswith (str_strip x) (lit ''SEVERITY:'')
      then tag_value (str_strip x) (lit ''SEVERITY:'') else severity a)"
  by (auto simp: process_line_def Let_def str_startswith_def lit_def prefix_def)

lemma scan_disease_name:
  "disease_name (scan_lines (response_lines t)) =
     (if tagged_lines t (lit ''DISEASE NAME:'') = [] then lit ''Unknown''
      else tag_value (last (tagged_lines t (lit ''DISEASE NAME:''))) (lit ''DISEASE NAME:''))"
  using scan_field [of disease_name "lit ''DISEASE NAME:''" "\<lambda>l. tag_value l (lit ''DISEASE NAME:'')" t]
  by (simp add: process_line_disease_name initial_analysis_def)

lemma scan_confidence:
  "confidence (scan_lines (response_lines t)) =
     (if tagged_lines t (lit ''CONFIDENCE:'') = [] then lit ''Medium''
      else tag_value (last (tagged_lines t (lit ''CONFIDENCE:''))) (lit ''CONFIDENCE:''))"
  using scan_field [of confidence "lit ''CONFIDENCE:''" "\<lambda>l. tag_value l (lit ''CONFIDENCE:'')" t]
  by (simp add: process_line_confidence initial_analysis_def)

lemma scan_description:
  "description (scan_lines (response_lines t)) =
     (if tagged_lines t (lit ''DESCRIPTION:'') = [] then []
      else tag_value (last (tagged_lines t (lit ''DESCRIPTION:''))) (lit ''DESCRIPTION:''))"
  using scan_field [of description "lit ''DESCRIPTION:''" "\<lambda>l. tag_value l (lit ''DESCRIPTION:'')" t]
  by (simp add: process_line_description initial_analysis_def)

lemma scan_symptoms:
  "symptoms (scan_lines (response_lines t)) =
     (if tagged_lines t (lit ''SYMPTOMS:'') = [] then []
      else semicolon_items (tag_value (last (tagged_lines t (lit ''SYMPTOMS:''))) (lit ''SYMPTOMS:'')))"
  using scan_field [of symptoms "lit ''SYMPTOMS:''" "\<lambda>l. semicolon_items (tag_value l (lit ''SYMPTOMS:''))" t]
  by (simp add: process_line_symptoms initial_analysis_def)

lemma scan_treatment:
  "treatment (scan_lines (response_lines t)) =
     (if tagged_lines t (lit ''TREATMENT:'') = [] then []
      else semicolon_items (tag_value (last (tagged_lines t (lit ''TREATMENT:''))) (lit ''TREATMENT:'')))"
  using scan_field [of treatment "lit ''TREATMENT:''" "\<lambda>l. semicolon_items (tag_value l (lit ''TREATMENT:''))" t]
  by (simp add: process_line_treatment initial_analysis_def)

lemma scan_prevention:
  "prevention (scan_lines (response_lines t)) =
     (if tagged_lines t (lit ''PREVENTION:'') = [] then []
      else semicolon_items (tag_value (last (tagged_lines t (lit ''PREVENTION:''))) (lit ''PREVENTION:'')))"
  using scan_field [of prevention "lit ''PREVENTION:''" "\<lambda>l. semicolon_items (tag_value l (lit ''PREVENTION:''))" t]
  by (simp add: process_line_prevention initial_analysis_def)

lemma scan_severity:
  "severity (scan_lines (response_lines t)) =
     (if tagged_lines t (lit ''SEVERITY:'') = [] then lit ''Unknown''
      else tag_value (last (tagged_lines t (lit ''SEVERITY:''))) (lit ''SEVERITY:''))"
  using scan_field [of severity "lit ''SEVERITY:''" "\<lambda>l. tag_value l (lit ''SEVERITY:'')" t]
  by (simp add: process_line_severity initial_analysis_def)

lemmas eval_defs = response_lines_def tagged_lines_def tag_value_def semicolon_items_def
  str_strip_def isspace_def str_startswith_def lit_def

section \<open>The description fallback\<close>

lemma lit_dots_nonempty: "lit ''...'' \<noteq> []"
  by (simp add: lit_def)

lemma parse_description:
  "description (parse_analysis_response t) =
     (if description (scan_lines (response_lines t)) = [] then take 200 t @ lit ''...''
      else description (scan_lines (response_lines t)))"
  by (simp add: parse_analysis_response_def Let_def fallback_description response_lines_def
      str_split_nonempty)

lemma scan_description_empty:
  assumes "\<forall>line\<in>set (tagged_lines t (lit ''DESCRIPTION:'')).
             tag_value line (lit ''DESCRIPTION:'') = []"
  shows "description (scan_lines (response_lines t)) = []"
proof (cases "tagged_lines t (lit ''DESCRIPTION:'') = []")
  case True
  then show ?thesis by (simp add: scan_description)
next
  case False
  then have "last (tagged_lines t (lit ''DESCRIPTION:'')) \<in> set (tagged_lines t (lit ''DESCRIPTION:''))"
    by (rule last_in_set)
  with assms have "tag_value (last (tagged_lines t (lit ''DESCRIPTION:''))) (lit ''DESCRIPTION:'') = []"
    by blast
  with False show ?thesis by (simp add: scan_description)
qed

text \<open>
  Claim C2 says that the empty string gives the empty description. The code gives the
  three dots: the stripped empty text splits into one empty line, so the guard
  \<^verbatim>\<open>len(lines) > 0\<close> holds and the fallback appends the ellipsis to the empty prefix. The
  other six fields are as the claim says.
\<close>

theorem parse_empty_string:
  "parse_analysis_response [] =
     \<lparr>disease_name = lit ''Unknown'', confidence = lit ''Medium'', description = lit ''...'',
      symptoms = [lit ''Analysis completed - check description for details''],
      treatment = [lit ''Consult with agricultural expert for specific treatment''],
      prevention = [lit ''Maintain proper plant hygiene and monitoring''],
      severity = lit ''Unknown''\<rparr>"
  by (simp add: parse_analysis_response_def scan_lines_def fallback_def process_line_def
      initial_analysis_def Let_def eval_defs)

text \<open>
  Claim C9. The guard \<^verbatim>\<open>len(lines) > 0\<close> of the description fallback holds for every input;
  so whenever no line assigns a non-empty description the returned description is
  \<^verbatim>\<open>response_text[:200] + "..."\<close>, and the returned description is never empty.
\<close>

theorem description_fallback_guard_always_true:
  "0 < length (response_lines t) \<and>
   ((\<forall>line\<in>set (tagged_lines t (lit ''DESCRIPTION:'')).
       tag_value line (lit ''DESCRIPTION:'') = [])
      \<longrightarrow> description (parse_analysis_response t) = take 200 t @ lit ''...'') \<and>
   description (parse_analysis_response t) \<noteq> []"
proof (intro conjI impI)
  show "0 < length (response_lines t)"
    by (simp add: response_lines_def str_split_nonempty)
next
  assume "\<forall>line\<in>set (tagged_lines t (lit ''DESCRIPTION:'')).
            tag_value line (lit ''DESCRIPTION:'') = []"
  then have "description (scan_lines (response_lines t)) = []"
    by (rule scan_description_empty)
  then show "description (parse_analysis_response t) = take 200 t @ lit ''...''"
    by (simp add: parse_description)
next
  show "description (parse_analysis_response t) \<noteq> []"
    by (simp add: parse_description lit_dots_nonempty)
qed

theorem description_fallback_guard_always_true_witness:
  "0 < length (response_lines (lit ''DESCRIPTION:   '')) \<and>
   tagged_lines (lit ''DESCRIPTION:   '') (lit ''DESCRIPTION:'') = [lit ''DESCRIPTION:''] \<and>
   tag_value (lit ''DESCRIPTION:'') (lit ''DESCRIPTION:'') = [] \<and>
   description (parse_analysis_response (lit ''DESCRIPTION:   '')) = lit ''DESCRIPTION:   ...''"
proof -
  have h: "tagged_lines (lit ''DESCRIPTION:   '') (lit ''DESCRIPTION:'') = [lit ''DESCRIPTION:'']"
    by (simp add: eval_defs)
  have v: "tag_value (lit ''DESCRIPTION:'') (lit ''DESCRIPTION:'') = []"
    by (simp add: eval_defs)
  have "\<forall>line\<in>set (tagged_lines (lit ''DESCRIPTION:   '') (lit ''DESCRIPTION:'')).
          tag_value line (lit ''DESCRIPTION:'') = []"
    by (simp add: h v)
  with description_fallback_guard_always_true [of "lit ''DESCRIPTION:   ''"]
  have "0 < length (response_lines (lit ''DESCRIPTION:   '')) \<and>
        description (parse_analysis_response (lit ''DESCRIPTION:   '')) =
          take 200 (lit ''DESCRIPTION:   '') @ lit ''...''"
    by blast
  with h v show ?thesis by (simp add: lit_def)
qed

text \<open>
  Claim C7. For an input of more than 200 characters in which no line assigns a non-empty
  description, the returned description is the first 200 characters of the raw text
  followed by the three dots.
\<close>

theorem long_response_without_description:
  assumes "200 < length t"
    and "\<forall>line\<in>set (tagged_lines t (lit ''DESCRIPTION:'')).
           tag_value line (lit ''DESCRIPTION:'') = []"
  shows "description (parse_analysis_response t) = take 200 t @ lit ''...''"
  using assms(2) by (simp add: parse_description scan_description_empty)

theorem long_response_without_description_witness:
  "length (lit ''SEVERITY: Mild'' @ 10 # lit ''The leaf in the photograph shows several brown lesions with yellow halos along the margins, and the lower surface carries a grey felt of spores; the pattern is typical of a fungal infection spreading in humid weather.'') = 232 \<and>
   tagged_lines (lit ''SEVERITY: Mild'' @ 10 # lit ''The leaf in the photograph shows several brown lesions with yellow halos along the margins, and the lower surface carries a grey felt of spores; the pattern is typical of a fungal infection spreading in humid weather.'') (lit ''DESCRIPTION:'') = [] \<and>
   description (parse_analysis_response (lit ''SEVERITY: Mild'' @ 10 # lit ''The leaf in the photograph shows several brown lesions with yellow halos along the margins, and the lower surface carries a grey felt of spores; the pattern is typical of a fungal infection spreading in humid weather.'')) =
     lit ''SEVERITY: Mild'' @ 10 # lit ''The leaf in the photograph shows several brown lesions with yellow halos along the margins, and the lower surface carries a grey felt of spores; the pattern is typical of a fungal infec...''"
proof -
  let ?t = "lit ''SEVERITY: Mild'' @ 10 # lit ''The leaf in the photograph shows several brown lesions with yellow halos along the margins, and the lower surface carries a grey felt of spores; the pattern is typical of a fungal infection spreading in humid weather.''"
  have len: "length ?t = 232"
    by (simp add: lit_def)
  have none: "tagged_lines ?t (lit ''DESCRIPTION:'') = []"
    by (simp add: eval_defs)
  have "description (parse_analysis_response ?t) = take 200 ?t @ lit ''...''"
  proof (rule long_response_without_description)
    show "200 < length ?t"
      unfolding len by simp
    show "\<forall>line\<in>set (tagged_lines ?t (lit ''DESCRIPTION:'')).
            tag_value line (lit ''DESCRIPTION:'') = []"
      unfolding none by simp
  qed
  moreover have "take 200 ?t @ lit ''...'' =
      lit ''SEVERITY: Mild'' @ 10 # lit ''The leaf in the photograph shows several brown lesions with yellow halos along the margins, and the lower surface carries a grey felt of spores; the pattern is typical of a fungal infec...''"
    by (simp add: lit_def)
  ultimately show ?thesis using len none by simp
qed

section \<open>The list fields hold trimmed, non-empty items\<close>

lemma last_dropWhile: "dropWhile P xs \<noteq> [] \<Longrightarrow> last (dropWhile P xs) = last xs"
  by (induction xs) (auto split: if_splits)

lemma str_strip_hd:
  assumes "str_strip s \<noteq> []"
  shows "\<not> isspace (hd (str_strip s))"
proof -
  let ?u = "dropWhile isspace s"
  let ?w = "dropWhile isspace (rev ?u)"
  from assms have w: "?w \<noteq> []" by (simp add: str_strip_def)
  have u: "?u \<noteq> []"
  proof
    assume "?u = []"
    then have "?w = []" by (simp only: rev.simps dropWhile.simps)
    with w show False by contradiction
  qed
  have "hd (str_strip s) = last ?w"
    using w by (simp add: str_strip_def hd_rev)
  also have "\<dots> = last (rev ?u)" using w by (rule last_dropWhile)
  also have "\<dots> = hd ?u" using u by (simp add: last_rev)
  finally show ?thesis using u hd_dropWhile [of isspace s] by simp
qed

lemma str_strip_last:
  assumes "str_strip s \<noteq> []"
  shows "\<not> isspace (last (str_strip s))"
proof -
  let ?w = "dropWhile isspace (rev (dropWhile isspace s))"
  from assms have w: "?w \<noteq> []" by (simp add: str_strip_def)
  have "last (str_strip s) = hd ?w"
    using w by (simp add: str_strip_def last_rev)
  then show ?thesis using w hd_dropWhile [of isspace "rev (dropWhile isspace s)"] by simp
qed

lemma semicolon_items_trimmed: "s \<in> set (semicolon_items text) \<Longrightarrow> trimmed_item s"
  by (auto simp: semicolon_items_def trimmed_item_def str_strip_hd str_strip_last)

lemma fallback_items_trimmed:
  "trimmed_item (lit ''Analysis completed - check description for details'')"
  "trimmed_item (lit ''Consult with agricultural expert for specific treatment'')"
  "trimmed_item (lit ''Maintain proper plant hygiene and monitoring'')"
  by (simp_all add: trimmed_item_def lit_def isspace_def)

lemma parse_symptoms:
  "symptoms (parse_analysis_response t) =
     (if symptoms (scan_lines (response_lines t)) = []
      then [lit ''Analysis completed - check description for details'']
      else symptoms (scan_lines (response_lines t)))"
  by (simp add: parse_analysis_response_def Let_def fallback_symptoms)

lemma parse_treatment:
  "treatment (parse_analysis_response t) =
     (if treatment (scan_lines (response_lines t)) = []
      then [lit ''Consult with agricultural expert for specific treatment'']
      else treatment (scan_lines (response_lines t)))"
  by (simp add: parse_analysis_response_def Let_def fallback_treatment)

lemma parse_prevention:
  "prevention (parse_analysis_response t) =
     (if prevention (scan_lines (response_lines t)) = []
      then [lit ''Maintain proper plant hygiene and monitoring'']
      else prevention (scan_lines (response_lines t)))"
  by (simp add: parse_analysis_response_def Let_def fallback_prevention)

lemma parse_symptoms_trimmed: "s \<in> set (symptoms (parse_analysis_response t)) \<Longrightarrow> trimmed_item s"
  by (auto simp: parse_symptoms scan_symptoms fallback_items_trimmed
      dest: semicolon_items_trimmed split: if_splits)

lemma parse_treatment_trimmed: "s \<in> set (treatment (parse_analysis_response t)) \<Longrightarrow> trimmed_item s"
  by (auto simp: parse_treatment scan_treatment fallback_items_trimmed
      dest: semicolon_items_trimmed split: if_splits)

lemma parse_prevention_trimmed: "s \<in> set (prevention (parse_analysis_response t)) \<Longrightarrow> trimmed_item s"
  by (auto simp: parse_prevention scan_prevention fallback_items_trimmed
      dest: semicolon_items_trimmed split: if_splits)

text \<open>
  Claim C10. Every element of the returned \<open>symptoms\<close>, \<open>treatment\<close> and \<open>prevention\<close>
  lists is a non-empty string without leading or trailing whitespace, whether it was parsed
  from a tagged line or is the item of a fallback list.
\<close>

theorem list_items_trimmed_nonempty:
  "\<forall>s \<in> set (symptoms (parse_analysis_response t)) \<union> set (treatment (parse_analysis_response t))
         \<union> set (prevention (parse_analysis_response t)).
     s \<noteq> [] \<and> \<not> isspace (hd s) \<and> \<not> isspace (last s)"
  using parse_symptoms_trimmed [of _ t] parse_treatment_trimmed [of _ t]
    parse_prevention_trimmed [of _ t]
  unfolding trimmed_item_def by blast

theorem list_items_trimmed_nonempty_witness:
  "symptoms (parse_analysis_response (lit ''SYMPTOMS:  spots ;; wilting '' @ 10 # lit ''TREATMENT: ;''))
     = [lit ''spots'', lit ''wilting''] \<and>
   lit ''wilting'' \<noteq> [] \<and> \<not> isspace (hd (lit ''wilting'')) \<and> \<not> isspace (last (lit ''wilting''))"
proof -
  let ?t = "lit ''SYMPTOMS:  spots ;; wilting '' @ 10 # lit ''TREATMENT: ;''"
  have "symptoms (scan_lines (response_lines ?t)) = [lit ''spots'', lit ''wilting'']"
    by (simp add: scan_lines_def process_line_def initial_analysis_def Let_def eval_defs)
  then have s: "symptoms (parse_analysis_response ?t) = [lit ''spots'', lit ''wilting'']"
    by (simp add: parse_symptoms)
  then have "lit ''wilting'' \<in> set (symptoms (parse_analysis_response ?t))
      \<union> set (treatment (parse_analysis_response ?t)) \<union> set (prevention (parse_analysis_response ?t))"
    by simp
  with list_items_trimmed_nonempty [of ?t]
  have "lit ''wilting'' \<noteq> [] \<and> \<not> isspace (hd (lit ''wilting'')) \<and> \<not> isspace (last (lit ''wilting''))"
    by blast
  with s show ?thesis by simp
qed

section \<open>The endpoint wraps its own 400 into a 500\<close>

text \<open>
  Claim C8. For an upload whose content type does not start with \<open>image/\<close> the endpoint
  answers with status 500 and a detail that begins \<open>Error analyzing image:\<close>, not with 400:
  the \<^verbatim>\<open>HTTPException\<close> of status 400 raised in the \<^verbatim>\<open>try\<close> block is caught by
  \<^verbatim>\<open>except Exception\<close> and wrapped.
\<close>

theorem non_image_upload_gives_500:
  assumes "content_type file = Some ct" and "\<not> str_startswith ct (lit ''image/'')"
  shows "analyze_leaf str_of vision now file =
           Inl (HTTPException 500 (lit ''Error analyzing image: '' @
             str_of (HTTPException 400 (lit ''File must be an image (JPEG, PNG, etc.)''))))
         \<and> response_status (analyze_leaf str_of vision now file) = 500
         \<and> response_status (analyze_leaf str_of vision now file) \<noteq> 400
         \<and> prefix (lit ''Error analyzing image:'') (response_detail (analyze_leaf str_of vision now file))"
  using assms by (simp add: analyze_leaf_def analyze_leaf_try_def lit_def)

theorem non_image_upload_gives_500_witness:
  "content_type \<lparr>content_type = Some (lit ''text/plain''), contents = [104, 105]\<rparr> = Some (lit ''text/plain'') \<and>
   \<not> str_startswith (lit ''text/plain'') (lit ''image/'') \<and>
   response_status (analyze_leaf (\<lambda>e. case e of HTTPException code detail \<Rightarrow> detail | OtherException msg \<Rightarrow> msg)
      (\<lambda>bytes. Inr []) (lit ''2025-01-01T00:00:00'')
      \<lparr>content_type = Some (lit ''text/plain''), contents = [104, 105]\<rparr>) = 500"
proof -
  have h: "\<not> str_startswith (lit ''text/plain'') (lit ''image/'')"
    by (simp add: str_startswith_def lit_def)
  have c: "content_type \<lparr>content_type = Some (lit ''text/plain''), contents = [104, 105]\<rparr> = Some (lit ''text/plain'')"
    by simp
  from non_image_upload_gives_500 [OF c h] c h show ?thesis by blast
qed

section \<open>The scalar fields of the returned record\<close>

lemma parse_disease_name:
  "disease_name (parse_analysis_response t) = disease_name (scan_lines (response_lines t))"
  by (simp add: parse_analysis_response_def Let_def fallback_disease_name)

lemma parse_confidence:
  "confidence (parse_analysis_response t) = confidence (scan_lines (response_lines t))"
  by (simp add: parse_analysis_response_def Let_def fallback_confidence)

lemma parse_severity:
  "severity (parse_analysis_response t) = severity (scan_lines (response_lines t))"
  by (simp add: parse_analysis_response_def Let_def fallback_severity)

lemma lit_defaults_nonempty: "lit ''Unknown'' \<noteq> []" "lit ''Medium'' \<noteq> []"
  by (simp_all add: lit_def)

text \<open>
  Claim C4 says that no scalar field of the returned record is ever empty, and that
  \<open>disease_name\<close> is non-empty even for a line that is exactly the tag. On that line the
  code assigns the empty remainder, and no later step restores the default.
\<close>

theorem disease_name_empty_counterexample:
  "disease_name (parse_analysis_response (lit ''DISEASE NAME:'')) = []"
  by (simp add: parse_disease_name scan_lines_def process_line_def initial_analysis_def
      Let_def eval_defs)

text \<open>
  Claim C4, amended. For every input the description is non-empty. The fields
  \<open>disease_name\<close>, \<open>confidence\<close> and \<open>severity\<close> keep their non-empty defaults when no
  line carries their tag, and they are empty exactly when the last line that carries the
  tag has an empty value.
\<close>

theorem scalar_fields_nonempty_amended:
  "description (parse_analysis_response t) \<noteq> [] \<and>
   (tagged_lines t (lit ''DISEASE NAME:'') = [] \<longrightarrow>
      disease_name (parse_analysis_response t) = lit ''Unknown'') \<and>
   (tagged_lines t (lit ''CONFIDENCE:'') = [] \<longrightarrow>
      confidence (parse_analysis_response t) = lit ''Medium'') \<and>
   (tagged_lines t (lit ''SEVERITY:'') = [] \<longrightarrow>
      severity (parse_analysis_response t) = lit ''Unknown'') \<and>
   (disease_name (parse_analysis_response t) = [] \<longleftrightarrow>
      tagged_lines t (lit ''DISEASE NAME:'') \<noteq> [] \<and>
      tag_value (last (tagged_lines t (lit ''DISEASE NAME:''))) (lit ''DISEASE NAME:'') = []) \<and>
   (confidence (parse_analysis_response t) = [] \<longleftrightarrow>
      tagged_lines t (lit ''CONFIDENCE:'') \<noteq> [] \<and>
      tag_value (last (tagged_lines t (lit ''CONFIDENCE:''))) (lit ''CONFIDENCE:'') = []) \<and>
   (severity (parse_analysis_response t) = [] \<longleftrightarrow>
      tagged_lines t (lit ''SEVERITY:'') \<noteq> [] \<and>
      tag_value (last (tagged_lines t (lit ''SEVERITY:''))) (lit ''SEVERITY:'') = [])"
proof (intro conjI)
  show "description (parse_analysis_response t) \<noteq> []"
    by (simp add: parse_description lit_dots_nonempty)
qed (simp_all add: parse_disease_name parse_confidence parse_severity scan_disease_name
    scan_confidence scan_severity lit_defaults_nonempty)

theorem scalar_fields_nonempty_amended_witness:
  "tagged_lines (lit ''SYMPTOMS: spots'') (lit ''DISEASE NAME:'') = [] \<and>
   tagged_lines (lit ''SYMPTOMS: spots'') (lit ''CONFIDENCE:'') = [] \<and>
   tagged_lines (lit ''SYMPTOMS: spots'') (lit ''SEVERITY:'') = [] \<and>
   disease_name (parse_analysis_response (lit ''SYMPTOMS: spots'')) = lit ''Unknown'' \<and>
   confidence (parse_analysis_response (lit ''SYMPTOMS: spots'')) = lit ''Medium'' \<and>
   severity (parse_analysis_response (lit ''SYMPTOMS: spots'')) = lit ''Unknown'' \<and>
   description (parse_analysis_response (lit ''SYMPTOMS: spots'')) \<noteq> []"
proof -
  have h: "tagged_lines (lit ''SYMPTOMS: spots'') (lit ''DISEASE NAME:'') = []"
    "tagged_lines (lit ''SYMPTOMS: spots'') (lit ''CONFIDENCE:'') = []"
    "tagged_lines (lit ''SYMPTOMS: spots'') (lit ''SEVERITY:'') = []"
    by (simp_all add: eval_defs)
  with scalar_fields_nonempty_amended [of "lit ''SYMPTOMS: spots''"] show ?thesis
    by blast
qed

section \<open>Duplicate tags\<close>

text \<open>
  Claim C5 says that the value of the last line carrying a tag is the one in the returned
  record, for every field. For the description (and likewise for the three lists) an
  empty last value is replaced by the fallback after the loop.
\<close>

theorem last_description_empty_counterexample:
  "tagged_lines (lit ''DESCRIPTION: rust'' @ 10 # lit ''DESCRIPTION:'') (lit ''DESCRIPTION:'') =
     [lit ''DESCRIPTION: rust'', lit ''DESCRIPTION:''] \<and>
   tag_value (lit ''DESCRIPTION:'') (lit ''DESCRIPTION:'') = [] \<and>
   description (parse_analysis_response (lit ''DESCRIPTION: rust'' @ 10 # lit ''DESCRIPTION:'')) =
     lit ''DESCRIPTION: rust'' @ 10 # lit ''DESCRIPTION:...'' \<and>
   description (parse_analysis_response (lit ''DESCRIPTION: rust'' @ 10 # lit ''DESCRIPTION:'')) \<noteq>
     tag_value (lit ''DESCRIPTION:'') (lit ''DESCRIPTION:'')"
proof -
  let ?x = "lit ''DESCRIPTION: rust'' @ 10 # lit ''DESCRIPTION:''"
  have l: "tagged_lines ?x (lit ''DESCRIPTION:'') = [lit ''DESCRIPTION: rust'', lit ''DESCRIPTION:'']"
    by (simp add: eval_defs)
  have v: "tag_value (lit ''DESCRIPTION:'') (lit ''DESCRIPTION:'') = []"
    by (simp add: eval_defs)
  have "description (scan_lines (response_lines ?x)) = []"
    by (simp add: scan_description l v)
  then have d: "description (parse_analysis_response ?x) = take 200 ?x @ lit ''...''"
    by (simp add: parse_description)
  have "take 200 ?x @ lit ''...'' = lit ''DESCRIPTION: rust'' @ 10 # lit ''DESCRIPTION:...''"
    by (simp add: lit_def)
  with d l v show ?thesis by (simp add: lit_def)
qed

text \<open>
  Claim C5, amended. When several lines carry the same tag, the loop leaves the value of
  the last of them in the record, for every field. The returned record holds that value
  for \<open>disease_name\<close>, \<open>confidence\<close> and \<open>severity\<close>, and for \<open>description\<close>, \<open>symptoms\<close>,
  \<open>treatment\<close> and \<open>prevention\<close> unless it is empty; an empty one is replaced by the
  fallback.
\<close>

theorem last_tagged_line_wins:
  "(tagged_lines t (lit ''DISEASE NAME:'') = ls1 @ [l1] \<longrightarrow>
      disease_name (parse_analysis_response t) = tag_value l1 (lit ''DISEASE NAME:'')) \<and>
   (tagged_lines t (lit ''CONFIDENCE:'') = ls2 @ [l2] \<longrightarrow>
      confidence (parse_analysis_response t) = tag_value l2 (lit ''CONFIDENCE:'')) \<and>
   (tagged_lines t (lit ''DESCRIPTION:'') = ls3 @ [l3] \<longrightarrow>
      description (scan_lines (response_lines t)) = tag_value l3 (lit ''DESCRIPTION:'') \<and>
      description (parse_analysis_response t) =
        (if tag_value l3 (lit ''DESCRIPTION:'') = [] then take 200 t @ lit ''...''
         else tag_value l3 (lit ''DESCRIPTION:''))) \<and>
   (tagged_lines t (lit ''SYMPTOMS:'') = ls4 @ [l4] \<longrightarrow>
      symptoms (scan_lines (response_lines t)) = semicolon_items (tag_value l4 (lit ''SYMPTOMS:'')) \<and>
      symptoms (parse_analysis_response t) =
        (if semicolon_items (tag_value l4 (lit ''SYMPTOMS:'')) = []
         then [lit ''Analysis completed - check description for details'']
         else semicolon_items (tag_value l4 (lit ''SYMPTOMS:'')))) \<and>
   (tagged_lines t (lit ''TREATMENT:'') = ls5 @ [l5] \<longrightarrow>
      treatment (scan_lines (response_lines t)) = semicolon_items (tag_value l5 (lit ''TREATMENT:'')) \<and>
      treatment (parse_analysis_response t) =
        (if semicolon_items (tag_value l5 (lit ''TREATMENT:'')) = []
         then [lit ''Consult with agricultural expert for specific treatment'']
         else semicolon_items (tag_value l5 (lit ''TREATMENT:'')))) \<and>
   (tagged_lines t (lit ''PREVENTION:'') = ls6 @ [l6] \<longrightarrow>
      prevention (scan_lines (response_lines t)) = semicolon_items (tag_value l6 (lit ''PREVENTION:'')) \<and>
      prevention (parse_analysis_response t) =
        (if semicolon_items (tag_value l6 (lit ''PREVENTION:'')) = []
         then [lit ''Maintain proper plant hygiene and monitoring'']
         else semicolon_items (tag_value l6 (lit ''PREVENTION:'')))) \<and>
   (tagged_lines t (lit ''SEVERITY:'') = ls7 @ [l7] \<longrightarrow>
      severity (parse_analysis_response t) = tag_value l7 (lit ''SEVERITY:''))"
proof (intro conjI impI)
  assume "tagged_lines t (lit ''DISEASE NAME:'') = ls1 @ [l1]"
  then show "disease_name (parse_analysis_response t) = tag_value l1 (lit ''DISEASE NAME:'')"
    by (simp add: parse_disease_name scan_disease_name)
next
  assume "tagged_lines t (lit ''CONFIDENCE:'') = ls2 @ [l2]"
  then show "confidence (parse_analysis_response t) = tag_value l2 (lit ''CONFIDENCE:'')"
    by (simp add: parse_confidence scan_confidence)
next
  assume h: "tagged_lines t (lit ''DESCRIPTION:'') = ls3 @ [l3]"
  then show s: "description (scan_lines (response_lines t)) = tag_value l3 (lit ''DESCRIPTION:'')"
    by (simp add: scan_description)
  then show "description (parse_analysis_response t) =
      (if tag_value l3 (lit ''DESCRIPTION:'') = [] then take 200 t @ lit ''...''
       else tag_value l3 (lit ''DESCRIPTION:''))"
    by (simp add: parse_description)
next
  assume h: "tagged_lines t (lit ''SYMPTOMS:'') = ls4 @ [l4]"
  then show s: "symptoms (scan_lines (response_lines t)) = semicolon_items (tag_value l4 (lit ''SYMPTOMS:''))"
    by (simp add: scan_symptoms)
  then show "symptoms (parse_analysis_response t) =
      (if semicolon_items (tag_value l4 (lit ''SYMPTOMS:'')) = []
       then [lit ''Analysis completed - check description for details'']
       else semicolon_items (tag_value l4 (lit ''SYMPTOMS:'')))"
    by (simp add: parse_symptoms)
next
  assume h: "tagged_lines t (lit ''TREATMENT:'') = ls5 @ [l5]"
  then show s: "treatment (scan_lines (response_lines t)) = semicolon_items (tag_value l5 (lit ''TREATMENT:''))"
    by (simp add: scan_treatment)
  then show "treatment (parse_analysis_response t) =
      (if semicolon_items (tag_value l5 (lit ''TREATMENT:'')) = []
       then [lit ''Consult with agricultural expert for specific treatment'']
       else semicolon_items (tag_value l5 (lit ''TREATMENT:'')))"
    by (simp add: parse_treatment)
next
  assume h: "tagged_lines t (lit ''PREVENTION:'') = ls6 @ [l6]"
  then show s: "prevention (scan_lines (response_lines t)) = semicolon_items (tag_value l6 (lit ''PREVENTION:''))"
    by (simp add: scan_prevention)
  then show "prevention (parse_analysis_response t) =
      (if semicolon_items (tag_value l6 (lit ''PREVENTION:'')) = []
       then [lit ''Maintain proper plant hygiene and monitoring'']
       else semicolon_items (tag_value l6 (lit ''PREVENTION:'')))"
    by (simp add: parse_prevention)
next
  assume "tagged_lines t (lit ''SEVERITY:'') = ls7 @ [l7]"
  then show "severity (parse_analysis_response t) = tag_value l7 (lit ''SEVERITY:'')"
    by (simp add: parse_severity scan_severity)
qed

theorem last_tagged_line_wins_witness:
  "tagged_lines (lit ''DISEASE NAME: rust'' @ 10 # lit ''DISEASE NAME: blight'' @ 10 # lit ''CONFIDENCE: Low'' @ 10 # lit ''CONFIDENCE: High'' @ 10 # lit ''DESCRIPTION: old'' @ 10 # lit ''DESCRIPTION: new'' @ 10 # lit ''SYMPTOMS: a'' @ 10 # lit ''SYMPTOMS: b; c'' @ 10 # lit ''TREATMENT: x'' @ 10 # lit ''TREATMENT: ;'' @ 10 # lit ''PREVENTION: p'' @ 10 # lit ''PREVENTION: q'' @ 10 # lit ''SEVERITY: Mild'' @ 10 # lit ''SEVERITY: Severe'') (lit ''DISEASE NAME:'') = [lit ''DISEASE NAME: rust''] @ [lit ''DISEASE NAME: blight''] \<and>
   disease_name (parse_analysis_response (lit ''DISEASE NAME: rust'' @ 10 # lit ''DISEASE NAME: blight'' @ 10 # lit ''CONFIDENCE: Low'' @ 10 # lit ''CONFIDENCE: High'' @ 10 # lit ''DESCRIPTION: old'' @ 10 # lit ''DESCRIPTION: new'' @ 10 # lit ''SYMPTOMS: a'' @ 10 # lit ''SYMPTOMS: b; c'' @ 10 # lit ''TREATMENT: x'' @ 10 # lit ''TREATMENT: ;'' @ 10 # lit ''PREVENTION: p'' @ 10 # lit ''PREVENTION: q'' @ 10 # lit ''SEVERITY: Mild'' @ 10 # lit ''SEVERITY: Severe'')) = lit ''blight'' \<and>
   tagged_lines (lit ''DISEASE NAME: rust'' @ 10 # lit ''DISEASE NAME: blight'' @ 10 # lit ''CONFIDENCE: Low'' @ 10 # lit ''CONFIDENCE: High'' @ 10 # lit ''DESCRIPTION: old'' @ 10 # lit ''DESCRIPTION: new'' @ 10 # lit ''SYMPTOMS: a'' @ 10 # lit ''SYMPTOMS: b; c'' @ 10 # lit ''TREATMENT: x'' @ 10 # lit ''TREATMENT: ;'' @ 10 # lit ''PREVENTION: p'' @ 10 # lit ''PREVENTION: q'' @ 10 # lit ''SEVERITY: Mild'' @ 10 # lit ''SEVERITY: Severe'') (lit ''CONFIDENCE:'') = [lit ''CONFIDENCE: Low''] @ [lit ''CONFIDENCE: High''] \<and>
   confidence (parse_analysis_response (lit ''DISEASE NAME: rust'' @ 10 # lit ''DISEASE NAME: blight'' @ 10 # lit ''CONFIDENCE: Low'' @ 10 # lit ''CONFIDENCE: High'' @ 10 # lit ''DESCRIPTION: old'' @ 10 # lit ''DESCRIPTION: new'' @ 10 # lit ''SYMPTOMS: a'' @ 10 # lit ''SYMPTOMS: b; c'' @ 10 # lit ''TREATMENT: x'' @ 10 # lit ''TREATMENT: ;'' @ 10 # lit ''PREVENTION: p'' @ 10 # lit ''PREVENTION: q'' @ 10 # lit ''SEVERITY: Mild'' @ 10 # lit ''SEVERITY: Severe'')) = lit ''High'' \<and>
   tagged_lines (lit ''DISEASE NAME: rust'' @ 10 # lit ''DISEASE NAME: blight'' @ 10 # lit ''CONFIDENCE: Low'' @ 10 # lit ''CONFIDENCE: High'' @ 10 # lit ''DESCRIPTION: old'' @ 10 # lit ''DESCRIPTION: new'' @ 10 # lit ''SYMPTOMS: a'' @ 10 # lit ''SYMPTOMS: b; c'' @ 10 # lit ''TREATMENT: x'' @ 10 # lit ''TREATMENT: ;'' @ 10 # lit ''PREVENTION: p'' @ 10 # lit ''PREVENTION: q'' @ 10 # lit ''SEVERITY: Mild'' @ 10 # lit ''SEVERITY: Severe'') (lit ''DESCRIPTION:'') = [lit ''DESCRIPTION: old''] @ [lit ''DESCRIPTION: new''] \<and>
   description (parse_analysis_response (lit ''DISEASE NAME: rust'' @ 10 # lit ''DISEASE NAME: blight'' @ 10 # lit ''CONFIDENCE: Low'' @ 10 # lit ''CONFIDENCE: High'' @ 10 # lit ''DESCRIPTION: old'' @ 10 # lit ''DESCRIPTION: new'' @ 10 # lit ''SYMPTOMS: a'' @ 10 # lit ''SYMPTOMS: b; c'' @ 10 # lit ''TREATMENT: x'' @ 10 # lit ''TREATMENT: ;'' @ 10 # lit ''PREVENTION: p'' @ 10 # lit ''PREVENTION: q'' @ 10 # lit ''SEVERITY: Mild'' @ 10 # lit ''SEVERITY: Severe'')) = lit ''new'' \<and>
   tagged_lines (lit ''DISEASE NAME: rust'' @ 10 # lit ''DISEASE NAME: blight'' @ 10 # lit ''CONFIDENCE: Low'' @ 10 # lit ''CONFIDENCE: High'' @ 10 # lit ''DESCRIPTION: old'' @ 10 # lit ''DESCRIPTION: new'' @ 10 # lit ''SYMPTOMS: a'' @ 10 # lit ''SYMPTOMS: b; c'' @ 10 # lit ''TREATMENT: x'' @ 10 # lit ''TREATMENT: ;'' @ 10 # lit ''PREVENTION: p'' @ 10 # lit ''PREVENTION: q'' @ 10 # lit ''SEVERITY: Mild'' @ 10 # lit ''SEVERITY: Severe'') (lit ''SYMPTOMS:'') = [lit ''SYMPTOMS: a''] @ [lit ''SYMPTOMS: b; c''] \<and>
   symptoms (parse_analysis_response (lit ''DISEASE NAME: rust'' @ 10 # lit ''DISEASE NAME: blight'' @ 10 # lit ''CONFIDENCE: Low'' @ 10 # lit ''CONFIDENCE: High'' @ 10 # lit ''DESCRIPTION: old'' @ 10 # lit ''DESCRIPTION: new'' @ 10 # lit ''SYMPTOMS: a'' @ 10 # lit ''SYMPTOMS: b; c'' @ 10 # lit ''TREATMENT: x'' @ 10 # lit ''TREATMENT: ;'' @ 10 # lit ''PREVENTION: p'' @ 10 # lit ''PREVENTION: q'' @ 10 # lit ''SEVERITY: Mild'' @ 10 # lit ''SEVERITY: Severe'')) = [lit ''b'', lit ''c''] \<and>
   tagged_lines (lit ''DISEASE NAME: rust'' @ 10 # lit ''DISEASE NAME: blight'' @ 10 # lit ''CONFIDENCE: Low'' @ 10 # lit ''CONFIDENCE: High'' @ 10 # lit ''DESCRIPTION: old'' @ 10 # lit ''DESCRIPTION: new'' @ 10 # lit ''SYMPTOMS: a'' @ 10 # lit ''SYMPTOMS: b; c'' @ 10 # lit ''TREATMENT: x'' @ 10 # lit ''TREATMENT: ;'' @ 10 # lit ''PREVENTION: p'' @ 10 # lit ''PREVENTION: q'' @ 10 # lit ''SEVERITY: Mild'' @ 10 # lit ''SEVERITY: Severe'') (lit ''TREATMENT:'') = [lit ''TREATMENT: x''] @ [lit ''TREATMENT: ;''] \<and>
   treatment (parse_analysis_response (lit ''DISEASE NAME: rust'' @ 10 # lit ''DISEASE NAME: blight'' @ 10 # lit ''CONFIDENCE: Low'' @ 10 # lit ''CONFIDENCE: High'' @ 10 # lit ''DESCRIPTION: old'' @ 10 # lit ''DESCRIPTION: new'' @ 10 # lit ''SYMPTOMS: a'' @ 10 # lit ''SYMPTOMS: b; c'' @ 10 # lit ''TREATMENT: x'' @ 10 # lit ''TREATMENT: ;'' @ 10 # lit ''PREVENTION: p'' @ 10 # lit ''PREVENTION: q'' @ 10 # lit ''SEVERITY: Mild'' @ 10 # lit ''SEVERITY: Severe'')) = [lit ''Consult with agricultural expert for specific treatment''] \<and>
   tagged_lines (lit ''DISEASE NAME: rust'' @ 10 # lit ''DISEASE NAME: blight'' @ 10 # lit ''CONFIDENCE: Low'' @ 10 # lit ''CONFIDENCE: High'' @ 10 # lit ''DESCRIPTION: old'' @ 10 # lit ''DESCRIPTION: new'' @ 10 # lit ''SYMPTOMS: a'' @ 10 # lit ''SYMPTOMS: b; c'' @ 10 # lit ''TREATMENT: x'' @ 10 # lit ''TREATMENT: ;'' @ 10 # lit ''PREVENTION: p'' @ 10 # lit ''PREVENTION: q'' @ 10 # lit ''SEVERITY: Mild'' @ 10 # lit ''SEVERITY: Severe'') (lit ''PREVENTION:'') = [lit ''PREVENTION: p''] @ [lit ''PREVENTION: q''] \<and>
   prevention (parse_analysis_response (lit ''DISEASE NAME: rust'' @ 10 # lit ''DISEASE NAME: blight'' @ 10 # lit ''CONFIDENCE: Low'' @ 10 # lit ''CONFIDENCE: High'' @ 10 # lit ''DESCRIPTION: old'' @ 10 # lit ''DESCRIPTION: new'' @ 10 # lit ''SYMPTOMS: a'' @ 10 # lit ''SYMPTOMS: b; c'' @ 10 # lit ''TREATMENT: x'' @ 10 # lit ''TREATMENT: ;'' @ 10 # lit ''PREVENTION: p'' @ 10 # lit ''PREVENTION: q'' @ 10 # lit ''SEVERITY: Mild'' @ 10 # lit ''SEVERITY: Severe'')) = [lit ''q''] \<and>
   tagged_lines (lit ''DISEASE NAME: rust'' @ 10 # lit ''DISEASE NAME: blight'' @ 10 # lit ''CONFIDENCE: Low'' @ 10 # lit ''CONFIDENCE: High'' @ 10 # lit ''DESCRIPTION: old'' @ 10 # lit ''DESCRIPTION: new'' @ 10 # lit ''SYMPTOMS: a'' @ 10 # lit ''SYMPTOMS: b; c'' @ 10 # lit ''TREATMENT: x'' @ 10 # lit ''TREATMENT: ;'' @ 10 # lit ''PREVENTION: p'' @ 10 # lit ''PREVENTION: q'' @ 10 # lit ''SEVERITY: Mild'' @ 10 # lit ''SEVERITY: Severe'') (lit ''SEVERITY:'') = [lit ''SEVERITY: Mild''] @ [lit ''SEVERITY: Severe''] \<and>
   severity (parse_analysis_response (lit ''DISEASE NAME: rust'' @ 10 # lit ''DISEASE NAME: blight'' @ 10 # lit ''CONFIDENCE: Low'' @ 10 # lit ''CONFIDENCE: High'' @ 10 # lit ''DESCRIPTION: old'' @ 10 # lit ''DESCRIPTION: new'' @ 10 # lit ''SYMPTOMS: a'' @ 10 # lit ''SYMPTOMS: b; c'' @ 10 # lit ''TREATMENT: x'' @ 10 # lit ''TREATMENT: ;'' @ 10 # lit ''PREVENTION: p'' @ 10 # lit ''PREVENTION: q'' @ 10 # lit ''SEVERITY: Mild'' @ 10 # lit ''SEVERITY: Severe'')) = lit ''Severe''"
proof -
  let ?t = "lit ''DISEASE NAME: rust'' @ 10 # lit ''DISEASE NAME: blight'' @ 10 # lit ''CONFIDENCE: Low'' @ 10 # lit ''CONFIDENCE: High'' @ 10 # lit ''DESCRIPTION: old'' @ 10 # lit ''DESCRIPTION: new'' @ 10 # lit ''SYMPTOMS: a'' @ 10 # lit ''SYMPTOMS: b; c'' @ 10 # lit ''TREATMENT: x'' @ 10 # lit ''TREATMENT: ;'' @ 10 # lit ''PREVENTION: p'' @ 10 # lit ''PREVENTION: q'' @ 10 # lit ''SEVERITY: Mild'' @ 10 # lit ''SEVERITY: Severe''"
  have ls: "map str_strip (response_lines ?t) =
      [lit ''DISEASE NAME: rust'',
       lit ''DISEASE NAME: blight'',
       lit ''CONFIDENCE: Low'',
       lit ''CONFIDENCE: High'',
       lit ''DESCRIPTION: old'',
       lit ''DESCRIPTION: new'',
       lit ''SYMPTOMS: a'',
       lit ''SYMPTOMS: b; c'',
       lit ''TREATMENT: x'',
       lit ''TREATMENT: ;'',
       lit ''PREVENTION: p'',
       lit ''PREVENTION: q'',
       lit ''SEVERITY: Mild'',
       lit ''SEVERITY: Severe'']"
    by (simp add: response_lines_def str_strip_def isspace_def lit_def)
  have h1: "tagged_lines ?t (lit ''DISEASE NAME:'') = [lit ''DISEASE NAME: rust''] @ [lit ''DISEASE NAME: blight'']"
    unfolding tagged_lines_def ls by (simp add: str_startswith_def lit_def)
  have h2: "tagged_lines ?t (lit ''CONFIDENCE:'') = [lit ''CONFIDENCE: Low''] @ [lit ''CONFIDENCE: High'']"
    unfolding tagged_lines_def ls by (simp add: str_startswith_def lit_def)
  have h3: "tagged_lines ?t (lit ''DESCRIPTION:'') = [lit ''DESCRIPTION: old''] @ [lit ''DESCRIPTION: new'']"
    unfolding tagged_lines_def ls by (simp add: str_startswith_def lit_def)
  have h4: "tagged_lines ?t (lit ''SYMPTOMS:'') = [lit ''SYMPTOMS: a''] @ [lit ''SYMPTOMS: b; c'']"
    unfolding tagged_lines_def ls by (simp add: str_startswith_def lit_def)
  have h5: "tagged_lines ?t (lit ''TREATMENT:'') = [lit ''TREATMENT: x''] @ [lit ''TREATMENT: ;'']"
    unfolding tagged_lines_def ls by (simp add: str_startswith_def lit_def)
  have h6: "tagged_lines ?t (lit ''PREVENTION:'') = [lit ''PREVENTION: p''] @ [lit ''PREVENTION: q'']"
    unfolding tagged_lines_def ls by (simp add: str_startswith_def lit_def)
  have h7: "tagged_lines ?t (lit ''SEVERITY:'') = [lit ''SEVERITY: Mild''] @ [lit ''SEVERITY: Severe'']"
    unfolding tagged_lines_def ls by (simp add: str_startswith_def lit_def)
  have v1: "tag_value (lit ''DISEASE NAME: blight'') (lit ''DISEASE NAME:'') = lit ''blight''"
    by (simp add: eval_defs)
  have v2: "tag_value (lit ''CONFIDENCE: High'') (lit ''CONFIDENCE:'') = lit ''High''"
    by (simp add: eval_defs)
  have v3: "tag_value (lit ''DESCRIPTION: new'') (lit ''DESCRIPTION:'') = lit ''new''"
    by (simp add: eval_defs)
  have v4: "semicolon_items (tag_value (lit ''SYMPTOMS: b; c'') (lit ''SYMPTOMS:'')) = [lit ''b'', lit ''c'']"
    by (simp add: eval_defs)
  have v5: "semicolon_items (tag_value (lit ''TREATMENT: ;'') (lit ''TREATMENT:'')) = []"
    by (simp add: eval_defs)
  have v6: "semicolon_items (tag_value (lit ''PREVENTION: q'') (lit ''PREVENTION:'')) = [lit ''q'']"
    by (simp add: eval_defs)
  have v7: "tag_value (lit ''SEVERITY: Severe'') (lit ''SEVERITY:'') = lit ''Severe''"
    by (simp add: eval_defs)
  note w = last_tagged_line_wins [of ?t "[lit ''DISEASE NAME: rust'']" "lit ''DISEASE NAME: blight''" "[lit ''CONFIDENCE: Low'']" "lit ''CONFIDENCE: High''" "[lit ''DESCRIPTION: old'']" "lit ''DESCRIPTION: new''" "[lit ''SYMPTOMS: a'']" "lit ''SYMPTOMS: b; c''" "[lit ''TREATMENT: x'']" "lit ''TREATMENT: ;''" "[lit ''PREVENTION: p'']" "lit ''PREVENTION: q''" "[lit ''SEVERITY: Mild'']" "lit ''SEVERITY: Severe''"]
  from w h1 have r1: "disease_name (parse_analysis_response ?t) = tag_value (lit ''DISEASE NAME: blight'') (lit ''DISEASE NAME:'')" by blast
  from w h2 have r2: "confidence (parse_analysis_response ?t) = tag_value (lit ''CONFIDENCE: High'') (lit ''CONFIDENCE:'')" by blast
  from w h3 have r3: "description (parse_analysis_response ?t) =
      (if tag_value (lit ''DESCRIPTION: new'') (lit ''DESCRIPTION:'') = [] then take 200 ?t @ lit ''...''
       else tag_value (lit ''DESCRIPTION: new'') (lit ''DESCRIPTION:''))" by blast
  from w h4 have r4: "symptoms (parse_analysis_response ?t) =
      (if semicolon_items (tag_value (lit ''SYMPTOMS: b; c'') (lit ''SYMPTOMS:'')) = []
       then [lit ''Analysis completed - check description for details'']
       else semicolon_items (tag_value (lit ''SYMPTOMS: b; c'') (lit ''SYMPTOMS:'')))" by blast
  from w h5 have r5: "treatment (parse_analysis_response ?t) =
      (if semicolon_items (tag_value (lit ''TREATMENT: ;'') (lit ''TREATMENT:'')) = []
       then [lit ''Consult with agricultural expert for specific treatment'']
       else semicolon_items (tag_value (lit ''TREATMENT: ;'') (lit ''TREATMENT:'')))" by blast
  from w h6 have r6: "prevention (parse_analysis_response ?t) =
      (if semicolon_items (tag_value (lit ''PREVENTION: q'') (lit ''PREVENTION:'')) = []
       then [lit ''Maintain proper plant hygiene and monitoring'']
       else semicolon_items (tag_value (lit ''PREVENTION: q'') (lit ''PREVENTION:'')))" by blast
  from w h7 have r7: "severity (parse_analysis_response ?t) = tag_value (lit ''SEVERITY: Severe'') (lit ''SEVERITY:'')" by blast
  have n: "lit ''new'' \<noteq> []" "[lit ''b'', lit ''c''] \<noteq> []" "[lit ''q''] \<noteq> []"
    by (simp_all add: lit_def)
  show ?thesis
    unfolding r1 r2 r3 r4 r5 r6 r7 v1 v2 v3 v4 v5 v6 v7 h1 h2 h3 h4 h5 h6 h7
    using n by simp
qed

section \<open>Well-formed responses\<close>

lemma str_replace_tag_prefix: "tag \<noteq> [] \<Longrightarrow> str_replace (tag @ v) tag [] = str_replace v tag []"
  by (cases tag) simp_all

lemma str_replace_absent: "\<not> str_contains v tag \<Longrightarrow> str_replace v tag [] = v"
  by (induction v) (auto split: if_splits)

lemma tag_value_once:
  "tag \<noteq> [] \<Longrightarrow> \<not> str_contains v tag \<Longrightarrow> tag_value (tag @ v) tag = str_strip v"
  by (simp add: tag_value_def str_replace_tag_prefix str_replace_absent)

lemma lit_tags_nonempty:
  "lit ''DISEASE NAME:'' \<noteq> []" "lit ''CONFIDENCE:'' \<noteq> []" "lit ''DESCRIPTION:'' \<noteq> []"
  "lit ''SEVERITY:'' \<noteq> []"
  by (simp_all add: lit_def)

text \<open>
  Claim C3 says that with every tag once as a line prefix each scalar field is the text
  after its tag, trimmed, also when that text contains the tag string again. The code
  removes the tag with \<^verbatim>\<open>replace\<close>, which deletes every occurrence in the line; and an
  empty description is replaced by the fallback.
\<close>

theorem repeated_tag_in_value_counterexample:
  "tagged_lines (lit ''DISEASE NAME: rust DISEASE NAME: blight'' @ 10 # lit ''CONFIDENCE: High'' @ 10 # lit ''DESCRIPTION:'' @ 10 # lit ''SYMPTOMS: spots'' @ 10 # lit ''TREATMENT: prune'' @ 10 # lit ''PREVENTION: hygiene'' @ 10 # lit ''SEVERITY: Mild'') (lit ''DISEASE NAME:'') = [lit ''DISEASE NAME: rust DISEASE NAME: blight''] \<and>
   tagged_lines (lit ''DISEASE NAME: rust DISEASE NAME: blight'' @ 10 # lit ''CONFIDENCE: High'' @ 10 # lit ''DESCRIPTION:'' @ 10 # lit ''SYMPTOMS: spots'' @ 10 # lit ''TREATMENT: prune'' @ 10 # lit ''PREVENTION: hygiene'' @ 10 # lit ''SEVERITY: Mild'') (lit ''CONFIDENCE:'') = [lit ''CONFIDENCE: High''] \<and>
   tagged_lines (lit ''DISEASE NAME: rust DISEASE NAME: blight'' @ 10 # lit ''CONFIDENCE: High'' @ 10 # lit ''DESCRIPTION:'' @ 10 # lit ''SYMPTOMS: spots'' @ 10 # lit ''TREATMENT: prune'' @ 10 # lit ''PREVENTION: hygiene'' @ 10 # lit ''SEVERITY: Mild'') (lit ''DESCRIPTION:'') = [lit ''DESCRIPTION:''] \<and>
   tagged_lines (lit ''DISEASE NAME: rust DISEASE NAME: blight'' @ 10 # lit ''CONFIDENCE: High'' @ 10 # lit ''DESCRIPTION:'' @ 10 # lit ''SYMPTOMS: spots'' @ 10 # lit ''TREATMENT: prune'' @ 10 # lit ''PREVENTION: hygiene'' @ 10 # lit ''SEVERITY: Mild'') (lit ''SYMPTOMS:'') = [lit ''SYMPTOMS: spots''] \<and>
   tagged_lines (lit ''DISEASE NAME: rust DISEASE NAME: blight'' @ 10 # lit ''CONFIDENCE: High'' @ 10 # lit ''DESCRIPTION:'' @ 10 # lit ''SYMPTOMS: spots'' @ 10 # lit ''TREATMENT: prune'' @ 10 # lit ''PREVENTION: hygiene'' @ 10 # lit ''SEVERITY: Mild'') (lit ''TREATMENT:'') = [lit ''TREATMENT: prune''] \<and>
   tagged_lines (lit ''DISEASE NAME: rust DISEASE NAME: blight'' @ 10 # lit ''CONFIDENCE: High'' @ 10 # lit ''DESCRIPTION:'' @ 10 # lit ''SYMPTOMS: spots'' @ 10 # lit ''TREATMENT: prune'' @ 10 # lit ''PREVENTION: hygiene'' @ 10 # lit ''SEVERITY: Mild'') (lit ''PREVENTION:'') = [lit ''PREVENTION: hygiene''] \<and>
   tagged_lines (lit ''DISEASE NAME: rust DISEASE NAME: blight'' @ 10 # lit ''CONFIDENCE: High'' @ 10 # lit ''DESCRIPTION:'' @ 10 # lit ''SYMPTOMS: spots'' @ 10 # lit ''TREATMENT: prune'' @ 10 # lit ''PREVENTION: hygiene'' @ 10 # lit ''SEVERITY: Mild'') (lit ''SEVERITY:'') = [lit ''SEVERITY: Mild''] \<and>
   disease_name (parse_analysis_response (lit ''DISEASE NAME: rust DISEASE NAME: blight'' @ 10 # lit ''CONFIDENCE: High'' @ 10 # lit ''DESCRIPTION:'' @ 10 # lit ''SYMPTOMS: spots'' @ 10 # lit ''TREATMENT: prune'' @ 10 # lit ''PREVENTION: hygiene'' @ 10 # lit ''SEVERITY: Mild'')) = lit ''rust  blight'' \<and>
   disease_name (parse_analysis_response (lit ''DISEASE NAME: rust DISEASE NAME: blight'' @ 10 # lit ''CONFIDENCE: High'' @ 10 # lit ''DESCRIPTION:'' @ 10 # lit ''SYMPTOMS: spots'' @ 10 # lit ''TREATMENT: prune'' @ 10 # lit ''PREVENTION: hygiene'' @ 10 # lit ''SEVERITY: Mild'')) \<noteq> str_strip (lit '' rust DISEASE NAME: blight'') \<and>
   description (parse_analysis_response (lit ''DISEASE NAME: rust DISEASE NAME: blight'' @ 10 # lit ''CONFIDENCE: High'' @ 10 # lit ''DESCRIPTION:'' @ 10 # lit ''SYMPTOMS: spots'' @ 10 # lit ''TREATMENT: prune'' @ 10 # lit ''PREVENTION: hygiene'' @ 10 # lit ''SEVERITY: Mild'')) =
     lit ''DISEASE NAME: rust DISEASE NAME: blight'' @ 10 # lit ''CONFIDENCE: High'' @ 10 # lit ''DESCRIPTION:'' @ 10 # lit ''SYMPTOMS: spots'' @ 10 # lit ''TREATMENT: prune'' @ 10 # lit ''PREVENTION: hygiene'' @ 10 # lit ''SEVERITY: Mild...'' \<and>
   description (parse_analysis_response (lit ''DISEASE NAME: rust DISEASE NAME: blight'' @ 10 # lit ''CONFIDENCE: High'' @ 10 # lit ''DESCRIPTION:'' @ 10 # lit ''SYMPTOMS: spots'' @ 10 # lit ''TREATMENT: prune'' @ 10 # lit ''PREVENTION: hygiene'' @ 10 # lit ''SEVERITY: Mild'')) \<noteq> str_strip []"
proof -
  let ?x = "lit ''DISEASE NAME: rust DISEASE NAME: blight'' @ 10 # lit ''CONFIDENCE: High'' @ 10 # lit ''DESCRIPTION:'' @ 10 # lit ''SYMPTOMS: spots'' @ 10 # lit ''TREATMENT: prune'' @ 10 # lit ''PREVENTION: hygiene'' @ 10 # lit ''SEVERITY: Mild''"
  have ls: "map str_strip (response_lines ?x) =
      [lit ''DISEASE NAME: rust DISEASE NAME: blight'',
       lit ''CONFIDENCE: High'',
       lit ''DESCRIPTION:'',
       lit ''SYMPTOMS: spots'',
       lit ''TREATMENT: prune'',
       lit ''PREVENTION: hygiene'',
       lit ''SEVERITY: Mild'']"
    by (simp add: response_lines_def str_strip_def isspace_def lit_def)
  have h1: "tagged_lines ?x (lit ''DISEASE NAME:'') = [lit ''DISEASE NAME: rust DISEASE NAME: blight'']"
    unfolding tagged_lines_def ls by (simp add: str_startswith_def lit_def)
  have h2: "tagged_lines ?x (lit ''CONFIDENCE:'') = [lit ''CONFIDENCE: High'']"
    unfolding tagged_lines_def ls by (simp add: str_startswith_def lit_def)
  have h3: "tagged_lines ?x (lit ''DESCRIPTION:'') = [lit ''DESCRIPTION:'']"
    unfolding tagged_lines_def ls by (simp add: str_startswith_def lit_def)
  have h4: "tagged_lines ?x (lit ''SYMPTOMS:'') = [lit ''SYMPTOMS: spots'']"
    unfolding tagged_lines_def ls by (simp add: str_startswith_def lit_def)
  have h5: "tagged_lines ?x (lit ''TREATMENT:'') = [lit ''TREATMENT: prune'']"
    unfolding tagged_lines_def ls by (simp add: str_startswith_def lit_def)
  have h6: "tagged_lines ?x (lit ''PREVENTION:'') = [lit ''PREVENTION: hygiene'']"
    unfolding tagged_lines_def ls by (simp add: str_startswith_def lit_def)
  have h7: "tagged_lines ?x (lit ''SEVERITY:'') = [lit ''SEVERITY: Mild'']"
    unfolding tagged_lines_def ls by (simp add: str_startswith_def lit_def)
  have v1: "tag_value (lit ''DISEASE NAME: rust DISEASE NAME: blight'') (lit ''DISEASE NAME:'') = lit ''rust  blight''"
    by (simp add: eval_defs)
  have v3: "tag_value (lit ''DESCRIPTION:'') (lit ''DESCRIPTION:'') = []"
    by (simp add: eval_defs)
  have d1: "disease_name (parse_analysis_response ?x) = lit ''rust  blight''"
    by (simp add: parse_disease_name scan_disease_name h1 v1)
  have "description (parse_analysis_response ?x) = take 200 ?x @ lit ''...''"
    by (simp add: parse_description scan_description h3 v3)
  moreover have "take 200 ?x @ lit ''...'' =
      lit ''DISEASE NAME: rust DISEASE NAME: blight'' @ 10 # lit ''CONFIDENCE: High'' @ 10 # lit ''DESCRIPTION:'' @ 10 # lit ''SYMPTOMS: spots'' @ 10 # lit ''TREATMENT: prune'' @ 10 # lit ''PREVENTION: hygiene'' @ 10 # lit ''SEVERITY: Mild...''"
    by (simp add: lit_def)
  ultimately have d3: "description (parse_analysis_response ?x) =
      lit ''DISEASE NAME: rust DISEASE NAME: blight'' @ 10 # lit ''CONFIDENCE: High'' @ 10 # lit ''DESCRIPTION:'' @ 10 # lit ''SYMPTOMS: spots'' @ 10 # lit ''TREATMENT: prune'' @ 10 # lit ''PREVENTION: hygiene'' @ 10 # lit ''SEVERITY: Mild...''"
    by simp
  have n1: "lit ''rust  blight'' \<noteq> str_strip (lit '' rust DISEASE NAME: blight'')"
    by (simp add: str_strip_def isspace_def lit_def)
  have n3: "lit ''DISEASE NAME: rust DISEASE NAME: blight'' @ 10 # lit ''CONFIDENCE: High'' @ 10 # lit ''DESCRIPTION:'' @ 10 # lit ''SYMPTOMS: spots'' @ 10 # lit ''TREATMENT: prune'' @ 10 # lit ''PREVENTION: hygiene'' @ 10 # lit ''SEVERITY: Mild...'' \<noteq> str_strip []"
    by (simp add: str_strip_def lit_def)
  show ?thesis
    unfolding d1 d3 h1 h2 h3 h4 h5 h6 h7 using n1 n3 by simp
qed

text \<open>
  Claim C3, amended. When a scalar tag appears exactly once as a line prefix and the text
  after it does not contain the tag string again, \<open>disease_name\<close>, \<open>confidence\<close> and
  \<open>severity\<close> are that text, trimmed; \<open>description\<close> is that text, trimmed, when this is
  non-empty, and the truncation fallback otherwise.
\<close>

theorem single_tag_value_verbatim:
  "(tagged_lines t (lit ''DISEASE NAME:'') = [lit ''DISEASE NAME:'' @ v1] \<and>
      \<not> str_contains v1 (lit ''DISEASE NAME:'') \<longrightarrow>
      disease_name (parse_analysis_response t) = str_strip v1) \<and>
   (tagged_lines t (lit ''CONFIDENCE:'') = [lit ''CONFIDENCE:'' @ v2] \<and>
      \<not> str_contains v2 (lit ''CONFIDENCE:'') \<longrightarrow>
      confidence (parse_analysis_response t) = str_strip v2) \<and>
   (tagged_lines t (lit ''DESCRIPTION:'') = [lit ''DESCRIPTION:'' @ v3] \<and>
      \<not> str_contains v3 (lit ''DESCRIPTION:'') \<longrightarrow>
      description (parse_analysis_response t) =
        (if str_strip v3 = [] then take 200 t @ lit ''...'' else str_strip v3)) \<and>
   (tagged_lines t (lit ''SEVERITY:'') = [lit ''SEVERITY:'' @ v4] \<and>
      \<not> str_contains v4 (lit ''SEVERITY:'') \<longrightarrow>
      severity (parse_analysis_response t) = str_strip v4)"
  by (simp add: parse_disease_name parse_confidence parse_severity parse_description
      scan_disease_name scan_confidence scan_severity scan_description tag_value_once
      lit_tags_nonempty)

theorem single_tag_value_verbatim_witness:
  "tagged_lines (lit ''DISEASE NAME: Leaf rust'' @ 10 # lit ''CONFIDENCE: High'' @ 10 # lit ''DESCRIPTION: Orange pustules'' @ 10 # lit ''SYMPTOMS: spots; wilting'' @ 10 # lit ''TREATMENT: prune'' @ 10 # lit ''PREVENTION: hygiene'' @ 10 # lit ''SEVERITY: Mild'') (lit ''DISEASE NAME:'') = [lit ''DISEASE NAME:'' @ lit '' Leaf rust''] \<and>
   \<not> str_contains (lit '' Leaf rust'') (lit ''DISEASE NAME:'') \<and>
   disease_name (parse_analysis_response (lit ''DISEASE NAME: Leaf rust'' @ 10 # lit ''CONFIDENCE: High'' @ 10 # lit ''DESCRIPTION: Orange pustules'' @ 10 # lit ''SYMPTOMS: spots; wilting'' @ 10 # lit ''TREATMENT: prune'' @ 10 # lit ''PREVENTION: hygiene'' @ 10 # lit ''SEVERITY: Mild'')) = lit ''Leaf rust'' \<and>
   tagged_lines (lit ''DISEASE NAME: Leaf rust'' @ 10 # lit ''CONFIDENCE: High'' @ 10 # lit ''DESCRIPTION: Orange pustules'' @ 10 # lit ''SYMPTOMS: spots; wilting'' @ 10 # lit ''TREATMENT: prune'' @ 10 # lit ''PREVENTION: hygiene'' @ 10 # lit ''SEVERITY: Mild'') (lit ''CONFIDENCE:'') = [lit ''CONFIDENCE:'' @ lit '' High''] \<and>
   \<not> str_contains (lit '' High'') (lit ''CONFIDENCE:'') \<and>
   confidence (parse_analysis_response (lit ''DISEASE NAME: Leaf rust'' @ 10 # lit ''CONFIDENCE: High'' @ 10 # lit ''DESCRIPTION: Orange pustules'' @ 10 # lit ''SYMPTOMS: spots; wilting'' @ 10 # lit ''TREATMENT: prune'' @ 10 # lit ''PREVENTION: hygiene'' @ 10 # lit ''SEVERITY: Mild'')) = lit ''High'' \<and>
   tagged_lines (lit ''DISEASE NAME: Leaf rust'' @ 10 # lit ''CONFIDENCE: High'' @ 10 # lit ''DESCRIPTION: Orange pustules'' @ 10 # lit ''SYMPTOMS: spots; wilting'' @ 10 # lit ''TREATMENT: prune'' @ 10 # lit ''PREVENTION: hygiene'' @ 10 # lit ''SEVERITY: Mild'') (lit ''DESCRIPTION:'') = [lit ''DESCRIPTION:'' @ lit '' Orange pustules''] \<and>
   \<not> str_contains (lit '' Orange pustules'') (lit ''DESCRIPTION:'') \<and>
   description (parse_analysis_response (lit ''DISEASE NAME: Leaf rust'' @ 10 # lit ''CONFIDENCE: High'' @ 10 # lit ''DESCRIPTION: Orange pustules'' @ 10 # lit ''SYMPTOMS: spots; wilting'' @ 10 # lit ''TREATMENT: prune'' @ 10 # lit ''PREVENTION: hygiene'' @ 10 # lit ''SEVERITY: Mild'')) = lit ''Orange pustules'' \<and>
   tagged_lines (lit ''DISEASE NAME: Leaf rust'' @ 10 # lit ''CONFIDENCE: High'' @ 10 # lit ''DESCRIPTION: Orange pustules'' @ 10 # lit ''SYMPTOMS: spots; wilting'' @ 10 # lit ''TREATMENT: prune'' @ 10 # lit ''PREVENTION: hygiene'' @ 10 # lit ''SEVERITY: Mild'') (lit ''SEVERITY:'') = [lit ''SEVERITY:'' @ lit '' Mild''] \<and>
   \<not> str_contains (lit '' Mild'') (lit ''SEVERITY:'') \<and>
   severity (parse_analysis_response (lit ''DISEASE NAME: Leaf rust'' @ 10 # lit ''CONFIDENCE: High'' @ 10 # lit ''DESCRIPTION: Orange pustules'' @ 10 # lit ''SYMPTOMS: spots; wilting'' @ 10 # lit ''TREATMENT: prune'' @ 10 # lit ''PREVENTION: hygiene'' @ 10 # lit ''SEVERITY: Mild'')) = lit ''Mild''"
proof -
  let ?t = "lit ''DISEASE NAME: Leaf rust'' @ 10 # lit ''CONFIDENCE: High'' @ 10 # lit ''DESCRIPTION: Orange pustules'' @ 10 # lit ''SYMPTOMS: spots; wilting'' @ 10 # lit ''TREATMENT: prune'' @ 10 # lit ''PREVENTION: hygiene'' @ 10 # lit ''SEVERITY: Mild''"
  have ls: "map str_strip (response_lines ?t) =
      [lit ''DISEASE NAME: Leaf rust'',
       lit ''CONFIDENCE: High'',
       lit ''DESCRIPTION: Orange pustules'',
       lit ''SYMPTOMS: spots; wilting'',
       lit ''TREATMENT: prune'',
       lit ''PREVENTION: hygiene'',
       lit ''SEVERITY: Mild'']"
    by (simp add: response_lines_def str_strip_def isspace_def lit_def)
  have h1: "tagged_lines ?t (lit ''DISEASE NAME:'') = [lit ''DISEASE NAME:'' @ lit '' Leaf rust'']"
    unfolding tagged_lines_def ls by (simp add: str_startswith_def lit_def)
  have h2: "tagged_lines ?t (lit ''CONFIDENCE:'') = [lit ''CONFIDENCE:'' @ lit '' High'']"
    unfolding tagged_lines_def ls by (simp add: str_startswith_def lit_def)
  have h3: "tagged_lines ?t (lit ''DESCRIPTION:'') = [lit ''DESCRIPTION:'' @ lit '' Orange pustules'']"
    unfolding tagged_lines_def ls by (simp add: str_startswith_def lit_def)
  have h4: "tagged_lines ?t (lit ''SEVERITY:'') = [lit ''SEVERITY:'' @ lit '' Mild'']"
    unfolding tagged_lines_def ls by (simp add: str_startswith_def lit_def)
  have c1: "\<not> str_contains (lit '' Leaf rust'') (lit ''DISEASE NAME:'')"
    by (simp add: lit_def)
  have c2: "\<not> str_contains (lit '' High'') (lit ''CONFIDENCE:'')"
    by (simp add: lit_def)
  have c3: "\<not> str_contains (lit '' Orange pustules'') (lit ''DESCRIPTION:'')"
    by (simp add: lit_def)
  have c4: "\<not> str_contains (lit '' Mild'') (lit ''SEVERITY:'')"
    by (simp add: lit_def)
  have s1: "str_strip (lit '' Leaf rust'') = lit ''Leaf rust''"
    by (simp add: str_strip_def isspace_def lit_def)
  have s2: "str_strip (lit '' High'') = lit ''High''"
    by (simp add: str_strip_def isspace_def lit_def)
  have s3: "str_strip (lit '' Orange pustules'') = lit ''Orange pustules''"
    by (simp add: str_strip_def isspace_def lit_def)
  have s4: "str_strip (lit '' Mild'') = lit ''Mild''"
    by (simp add: str_strip_def isspace_def lit_def)
  note w = single_tag_value_verbatim [of ?t "lit '' Leaf rust''" "lit '' High''" "lit '' Orange pustules''" "lit '' Mild''"]
  from w h1 c1 have r1: "disease_name (parse_analysis_response ?t) = str_strip (lit '' Leaf rust'')" by blast
  from w h2 c2 have r2: "confidence (parse_analysis_response ?t) = str_strip (lit '' High'')" by blast
  from w h3 c3 have r3: "description (parse_analysis_response ?t) =
      (if str_strip (lit '' Orange pustules'') = [] then take 200 ?t @ lit ''...'' else str_strip (lit '' Orange pustules''))" by blast
  from w h4 c4 have r4: "severity (parse_analysis_response ?t) = str_strip (lit '' Mild'')" by blast
  have n: "lit ''Orange pustules'' \<noteq> []"
    by (simp add: lit_def)
  show ?thesis
    unfolding r1 r2 r3 r4 s1 s2 s3 s4 h1 h2 h3 h4 using c1 c2 c3 c4 n by simp
qed

section \<open>Splitting the list fields\<close>

lemma str_split_append_sep:
  "sep \<notin> set s \<Longrightarrow> str_split (s @ sep # rest) sep = s # str_split rest sep"
proof (induction s)
  case Nil
  obtain p ps where "str_split rest sep = p # ps"
    using str_split_nonempty [of rest sep] by (cases "str_split rest sep") auto
  then show ?case by simp
next
  case (Cons c s)
  then show ?case by simp
qed

lemma str_split_no_sep: "sep \<notin> set s \<Longrightarrow> str_split s sep = [s]"
  by (induction s) simp_all

lemma str_split_join:
  "segs \<noteq> [] \<Longrightarrow> \<forall>s\<in>set segs. sep \<notin> set s \<Longrightarrow> str_split (str_join sep segs) sep = segs"
proof (induction sep segs rule: str_join.induct)
  case (1 sep)
  then show ?case by simp
next
  case (2 sep s)
  then show ?case by (simp add: str_split_no_sep)
next
  case (3 sep s s' ss)
  then show ?case by (simp add: str_split_append_sep)
qed

lemma str_split_pieces_sep_free: "\<forall>s\<in>set (str_split r sep). sep \<notin> set s"
proof (induction r)
  case Nil
  show ?case by simp
next
  case (Cons c cs)
  obtain p ps where e: "str_split cs sep = p # ps"
    using str_split_nonempty [of cs sep] by (cases "str_split cs sep") auto
  with Cons show ?case by auto
qed

lemma str_join_Cons: "ps \<noteq> [] \<Longrightarrow> str_join sep (p # ps) = p @ sep # str_join sep ps"
  by (cases ps) simp_all

lemma str_join_split: "str_join sep (str_split r sep) = r"
proof (induction r)
  case Nil
  show ?case by simp
next
  case (Cons c cs)
  obtain p ps where e: "str_split cs sep = p # ps"
    using str_split_nonempty [of cs sep] by (cases "str_split cs sep") auto
  show ?case
  proof (cases "c = sep")
    case True
    with e Cons show ?thesis by simp
  next
    case False
    with e Cons show ?thesis by (cases ps) auto
  qed
qed

lemma semicolon_items_join:
  assumes "segs \<noteq> []" and "\<forall>s\<in>set segs. 59 \<notin> set s"
  shows "semicolon_items (str_join 59 segs) = filter (\<lambda>s. s \<noteq> []) (map str_strip segs)"
  using assms by (simp add: semicolon_items_def str_split_join filter_map comp_def)

text \<open>
  Claim C6. For a line that matches the tag of a list field, the remainder
  (\<^verbatim>\<open>line.replace(TAG, "").strip()\<close>, as the source computes it) is split at every \<open>;\<close>,
  each segment is trimmed, the empty ones are dropped and the order is kept: splitting
  a text gives segments without \<open>;\<close> whose \<open>;\<close>-join is the text, and whatever segments
  without \<open>;\<close> the remainder is the \<open>;\<close>-join of, the field becomes their trimmed, non-empty
  members in order. In particular the line
  \<open>SYMPTOMS: yellow spots; wilting;  ; curling\<close> gives three items, and \<open>SYMPTOMS: ;;;\<close> gives
  the empty list after the loop, which the fallback replaces by its single item.
\<close>

theorem list_field_items:
  "(\<forall>s\<in>set (str_split r 59). 59 \<notin> set s) \<and>
   str_join 59 (str_split r 59) = r \<and>
   (segs \<noteq> [] \<and> (\<forall>s\<in>set segs. 59 \<notin> set s) \<and>
      str_startswith (str_strip raw) (lit ''SYMPTOMS:'') \<and>
      tag_value (str_strip raw) (lit ''SYMPTOMS:'') = str_join 59 segs \<longrightarrow>
      symptoms (process_line a raw) = filter (\<lambda>s. s \<noteq> []) (map str_strip segs)) \<and>
   (segs \<noteq> [] \<and> (\<forall>s\<in>set segs. 59 \<notin> set s) \<and>
      str_startswith (str_strip raw) (lit ''TREATMENT:'') \<and>
      tag_value (str_strip raw) (lit ''TREATMENT:'') = str_join 59 segs \<longrightarrow>
      treatment (process_line a raw) = filter (\<lambda>s. s \<noteq> []) (map str_strip segs)) \<and>
   (segs \<noteq> [] \<and> (\<forall>s\<in>set segs. 59 \<notin> set s) \<and>
      str_startswith (str_strip raw) (lit ''PREVENTION:'') \<and>
      tag_value (str_strip raw) (lit ''PREVENTION:'') = str_join 59 segs \<longrightarrow>
      prevention (process_line a raw) = filter (\<lambda>s. s \<noteq> []) (map str_strip segs)) \<and>
   symptoms (parse_analysis_response (lit ''SYMPTOMS: yellow spots; wilting;  ; curling'')) =
     [lit ''yellow spots'', lit ''wilting'', lit ''curling''] \<and>
   symptoms (scan_lines (response_lines (lit ''SYMPTOMS: ;;;''))) = [] \<and>
   symptoms (parse_analysis_response (lit ''SYMPTOMS: ;;;'')) =
     [lit ''Analysis completed - check description for details'']"
proof (intro conjI impI)
  show "\<forall>s\<in>set (str_split r 59). 59 \<notin> set s"
    by (rule str_split_pieces_sep_free)
next
  show "str_join 59 (str_split r 59) = r"
    by (rule str_join_split)
next
  assume "segs \<noteq> [] \<and> (\<forall>s\<in>set segs. 59 \<notin> set s) \<and>
      str_startswith (str_strip raw) (lit ''SYMPTOMS:'') \<and>
      tag_value (str_strip raw) (lit ''SYMPTOMS:'') = str_join 59 segs"
  then show "symptoms (process_line a raw) = filter (\<lambda>s. s \<noteq> []) (map str_strip segs)"
    by (simp add: process_line_symptoms semicolon_items_join)
next
  assume "segs \<noteq> [] \<and> (\<forall>s\<in>set segs. 59 \<notin> set s) \<and>
      str_startswith (str_strip raw) (lit ''TREATMENT:'') \<and>
      tag_value (str_strip raw) (lit ''TREATMENT:'') = str_join 59 segs"
  then show "treatment (process_line a raw) = filter (\<lambda>s. s \<noteq> []) (map str_strip segs)"
    by (simp add: process_line_treatment semicolon_items_join)
next
  assume "segs \<noteq> [] \<and> (\<forall>s\<in>set segs. 59 \<notin> set s) \<and>
      str_startswith (str_strip raw) (lit ''PREVENTION:'') \<and>
      tag_value (str_strip raw) (lit ''PREVENTION:'') = str_join 59 segs"
  then show "prevention (process_line a raw) = filter (\<lambda>s. s \<noteq> []) (map str_strip segs)"
    by (simp add: process_line_prevention semicolon_items_join)
next
  have "symptoms (scan_lines (response_lines (lit ''SYMPTOMS: yellow spots; wilting;  ; curling''))) =
      [lit ''yellow spots'', lit ''wilting'', lit ''curling'']"
    by (simp add: scan_lines_def process_line_symptoms eval_defs)
  then show "symptoms (parse_analysis_response (lit ''SYMPTOMS: yellow spots; wilting;  ; curling'')) =
      [lit ''yellow spots'', lit ''wilting'', lit ''curling'']"
    by (simp add: parse_symptoms)
next
  show e: "symptoms (scan_lines (response_lines (lit ''SYMPTOMS: ;;;''))) = []"
    by (simp add: scan_lines_def process_line_symptoms initial_analysis_def eval_defs)
  show "symptoms (parse_analysis_response (lit ''SYMPTOMS: ;;;'')) =
      [lit ''Analysis completed - check description for details'']"
    by (simp add: parse_symptoms e)
qed

theorem list_field_items_witness:
  "str_startswith (str_strip (lit ''  SYMPTOMS: yellow spots; wilting;  ; curling '')) (lit ''SYMPTOMS:'') \<and>
   tag_value (str_strip (lit ''  SYMPTOMS: yellow spots; wilting;  ; curling '')) (lit ''SYMPTOMS:'') =
     str_join 59 [lit ''yellow spots'', lit '' wilting'', lit ''  '', lit '' curling''] \<and>
   symptoms (process_line initial_analysis (lit ''  SYMPTOMS: yellow spots; wilting;  ; curling '')) =
     [lit ''yellow spots'', lit ''wilting'', lit ''curling''] \<and>
   str_startswith (str_strip (lit ''TREATMENT: prune ;burn'')) (lit ''TREATMENT:'') \<and>
   tag_value (str_strip (lit ''TREATMENT: prune ;burn'')) (lit ''TREATMENT:'') =
     str_join 59 [lit ''prune '', lit ''burn''] \<and>
   treatment (process_line initial_analysis (lit ''TREATMENT: prune ;burn'')) =
     [lit ''prune'', lit ''burn''] \<and>
   str_startswith (str_strip (lit ''PREVENTION: ;hygiene'')) (lit ''PREVENTION:'') \<and>
   tag_value (str_strip (lit ''PREVENTION: ;hygiene'')) (lit ''PREVENTION:'') =
     str_join 59 [[], lit ''hygiene''] \<and>
   prevention (process_line initial_analysis (lit ''PREVENTION: ;hygiene'')) = [lit ''hygiene'']"
proof -
  let ?r1 = "lit ''  SYMPTOMS: yellow spots; wilting;  ; curling ''"
  let ?g1 = "[lit ''yellow spots'', lit '' wilting'', lit ''  '', lit '' curling'']"
  let ?r2 = "lit ''TREATMENT: prune ;burn''"
  let ?g2 = "[lit ''prune '', lit ''burn'']"
  let ?r3 = "lit ''PREVENTION: ;hygiene''"
  let ?g3 = "[[], lit ''hygiene'']"
  have p1: "str_startswith (str_strip ?r1) (lit ''SYMPTOMS:'')"
    and p2: "str_startswith (str_strip ?r2) (lit ''TREATMENT:'')"
    and p3: "str_startswith (str_strip ?r3) (lit ''PREVENTION:'')"
    by (simp_all add: eval_defs)
  have v1: "tag_value (str_strip ?r1) (lit ''SYMPTOMS:'') = str_join 59 ?g1"
    and v2: "tag_value (str_strip ?r2) (lit ''TREATMENT:'') = str_join 59 ?g2"
    and v3: "tag_value (str_strip ?r3) (lit ''PREVENTION:'') = str_join 59 ?g3"
    by (simp_all add: eval_defs)
  have n1: "?g1 \<noteq> [] \<and> (\<forall>s\<in>set ?g1. 59 \<notin> set s)"
    and n2: "?g2 \<noteq> [] \<and> (\<forall>s\<in>set ?g2. 59 \<notin> set s)"
    and n3: "?g3 \<noteq> [] \<and> (\<forall>s\<in>set ?g3. 59 \<notin> set s)"
    by (simp_all add: lit_def)
  have f1: "filter (\<lambda>s. s \<noteq> []) (map str_strip ?g1) = [lit ''yellow spots'', lit ''wilting'', lit ''curling'']"
    and f2: "filter (\<lambda>s. s \<noteq> []) (map str_strip ?g2) = [lit ''prune'', lit ''burn'']"
    and f3: "filter (\<lambda>s. s \<noteq> []) (map str_strip ?g3) = [lit ''hygiene'']"
    by (simp_all add: str_strip_def isspace_def lit_def)
  from list_field_items [of _ ?g1 ?r1 initial_analysis] n1 p1 v1
  have r1: "symptoms (process_line initial_analysis ?r1) = filter (\<lambda>s. s \<noteq> []) (map str_strip ?g1)"
    by blast
  from list_field_items [of _ ?g2 ?r2 initial_analysis] n2 p2 v2
  have r2: "treatment (process_line initial_analysis ?r2) = filter (\<lambda>s. s \<noteq> []) (map str_strip ?g2)"
    by blast
  from list_field_items [of _ ?g3 ?r3 initial_analysis] n3 p3 v3
  have r3: "prevention (process_line initial_analysis ?r3) = filter (\<lambda>s. s \<noteq> []) (map str_strip ?g3)"
    by blast
  show ?thesis
    unfolding r1 r2 r3 f1 f2 f3 using p1 p2 p3 v1 v2 v3 by simp
qed

end
